theory Spec2Isabelle
  imports Main "HOL-Library.Word"
begin

section \<open>The Checksum application's top level (fsw/src/cs_app.c)\<close>

text \<open>
  The file holds the application's initialisation, its command pipe dispatch, the
  housekeeping request and the two routines that keep the six per-class enable/disable
  states in the Critical Data Store (CDS). The global \<open>CS_AppData\<close> is threaded through
  every function as part of an explicit world state, next to the parts of cFE that the
  code talks to: the CDS block registered under \<open>CS_CDS_NAME\<close>, the events sent, the
  system log and the telemetry transmitted.
\<close>

subsection \<open>Machine types and cFE constants\<close>

type_synonym uint8 = "8 word"
type_synonym uint16 = "16 word"
type_synonym uint32 = "32 word"
type_synonym int32 = "32 word"
  \<comment> \<open>status codes; the code only compares them for equality\<close>
type_synonym CFE_ES_CDSHandle_t = "32 word"
  \<comment> \<open>a cFE resource identifier\<close>

definition CS_NUM_DATA_STORE_STATES :: nat where
  "CS_NUM_DATA_STORE_STATES = 6"

text \<open>cFE's status codes (cfe\_error.h) and resource identifiers (cfe\_resourceid.h).\<close>

definition CFE_SUCCESS :: int32 where
  "CFE_SUCCESS = 0"

definition CFE_ES_CDS_ALREADY_EXISTS :: int32 where
  "CFE_ES_CDS_ALREADY_EXISTS = 0x4200000D"

definition CFE_ES_ERR_RESOURCEID_NOT_VALID :: int32 where
  "CFE_ES_ERR_RESOURCEID_NOT_VALID = 0xC4000002"

definition CFE_ES_CDS_BAD_HANDLE :: CFE_ES_CDSHandle_t where
  "CFE_ES_CDS_BAD_HANDLE = 0"

definition CFE_RESOURCEID_TEST_DEFINED :: "CFE_ES_CDSHandle_t \<Rightarrow> bool" where
  "CFE_RESOURCEID_TEST_DEFINED h = (h \<noteq> 0)"

datatype CFE_ES_RunStatus =
    CFE_ES_RunStatus_UNDEFINED
  | CFE_ES_RunStatus_APP_RUN
  | CFE_ES_RunStatus_APP_EXIT
  | CFE_ES_RunStatus_APP_ERROR
  | CFE_ES_RunStatus_SYS_EXCEPTION

datatype CFE_EVS_EventType =
    CFE_EVS_EventType_INFORMATION
  | CFE_EVS_EventType_ERROR

text \<open>
  The event identifiers that cs\_app.c sends. \<open>CS_EID_UNSET\<close> stands for the initial
  value 0 of the local \<open>EventId\<close> of \<open>CS_CreateRestoreStatesFromCDS\<close>.
\<close>

datatype CS_EventID =
    CS_EID_UNSET
  | CS_INIT_INF_EID
  | CS_MID_ERR_EID
  | CS_CC1_ERR_EID
  | CS_LEN_ERR_EID
  | CS_CR_CDS_CPY_ERR_EID
  | CS_CR_CDS_RES_ERR_EID
  | CS_CR_CDS_REG_ERR_EID
  | CS_UPDATE_CDS_ERR_EID
  | CS_EXIT_ERR_EID
  | CS_EXIT_INF_EID

subsection \<open>Command codes and their handlers\<close>

text \<open>The case labels of the switch in \<open>CS_ProcessCmd\<close>, in source order.\<close>

datatype CS_CC =
    CS_NOOP_CC
  | CS_RESET_CC
  | CS_ONESHOT_CC
  | CS_CANCEL_ONESHOT_CC
  | CS_ENABLE_ALL_CS_CC
  | CS_DISABLE_ALL_CS_CC
  | CS_ENABLE_CFECORE_CC
  | CS_DISABLE_CFECORE_CC
  | CS_REPORT_BASELINE_CFECORE_CC
  | CS_RECOMPUTE_BASELINE_CFECORE_CC
  | CS_ENABLE_OS_CC
  | CS_DISABLE_OS_CC
  | CS_REPORT_BASELINE_OS_CC
  | CS_RECOMPUTE_BASELINE_OS_CC
  | CS_ENABLE_EEPROM_CC
  | CS_DISABLE_EEPROM_CC
  | CS_REPORT_BASELINE_EEPROM_CC
  | CS_RECOMPUTE_BASELINE_EEPROM_CC
  | CS_ENABLE_ENTRY_EEPROM_CC
  | CS_DISABLE_ENTRY_EEPROM_CC
  | CS_GET_ENTRY_ID_EEPROM_CC
  | CS_ENABLE_MEMORY_CC
  | CS_DISABLE_MEMORY_CC
  | CS_REPORT_BASELINE_MEMORY_CC
  | CS_RECOMPUTE_BASELINE_MEMORY_CC
  | CS_ENABLE_ENTRY_MEMORY_CC
  | CS_DISABLE_ENTRY_MEMORY_CC
  | CS_GET_ENTRY_ID_MEMORY_CC
  | CS_ENABLE_TABLES_CC
  | CS_DISABLE_TABLES_CC
  | CS_REPORT_BASELINE_TABLE_CC
  | CS_RECOMPUTE_BASELINE_TABLE_CC
  | CS_ENABLE_NAME_TABLE_CC
  | CS_DISABLE_NAME_TABLE_CC
  | CS_ENABLE_APPS_CC
  | CS_DISABLE_APPS_CC
  | CS_REPORT_BASELINE_APP_CC
  | CS_RECOMPUTE_BASELINE_APP_CC
  | CS_ENABLE_NAME_APP_CC
  | CS_DISABLE_NAME_APP_CC

definition CS_ProcessCmd_labels :: "CS_CC list" where
  "CS_ProcessCmd_labels =
    [CS_NOOP_CC, CS_RESET_CC, CS_ONESHOT_CC, CS_CANCEL_ONESHOT_CC,
     CS_ENABLE_ALL_CS_CC, CS_DISABLE_ALL_CS_CC,
     CS_ENABLE_CFECORE_CC, CS_DISABLE_CFECORE_CC,
     CS_REPORT_BASELINE_CFECORE_CC, CS_RECOMPUTE_BASELINE_CFECORE_CC,
     CS_ENABLE_OS_CC, CS_DISABLE_OS_CC,
     CS_REPORT_BASELINE_OS_CC, CS_RECOMPUTE_BASELINE_OS_CC,
     CS_ENABLE_EEPROM_CC, CS_DISABLE_EEPROM_CC,
     CS_REPORT_BASELINE_EEPROM_CC, CS_RECOMPUTE_BASELINE_EEPROM_CC,
     CS_ENABLE_ENTRY_EEPROM_CC, CS_DISABLE_ENTRY_EEPROM_CC, CS_GET_ENTRY_ID_EEPROM_CC,
     CS_ENABLE_MEMORY_CC, CS_DISABLE_MEMORY_CC,
     CS_REPORT_BASELINE_MEMORY_CC, CS_RECOMPUTE_BASELINE_MEMORY_CC,
     CS_ENABLE_ENTRY_MEMORY_CC, CS_DISABLE_ENTRY_MEMORY_CC, CS_GET_ENTRY_ID_MEMORY_CC,
     CS_ENABLE_TABLES_CC, CS_DISABLE_TABLES_CC,
     CS_REPORT_BASELINE_TABLE_CC, CS_RECOMPUTE_BASELINE_TABLE_CC,
     CS_ENABLE_NAME_TABLE_CC, CS_DISABLE_NAME_TABLE_CC,
     CS_ENABLE_APPS_CC, CS_DISABLE_APPS_CC,
     CS_REPORT_BASELINE_APP_CC, CS_RECOMPUTE_BASELINE_APP_CC,
     CS_ENABLE_NAME_APP_CC, CS_DISABLE_NAME_APP_CC]"

text \<open>The command handlers the switch calls; they live in other files of the application.\<close>

datatype CS_Handler =
    CS_NoopCmd
  | CS_ResetCmd
  | CS_OneShotCmd
  | CS_CancelOneShotCmd
  | CS_EnableAllCSCmd
  | CS_DisableAllCSCmd
  | CS_EnableCfeCoreCmd
  | CS_DisableCfeCoreCmd
  | CS_ReportBaselineCfeCoreCmd
  | CS_RecomputeBaselineCfeCoreCmd
  | CS_EnableOSCmd
  | CS_DisableOSCmd
  | CS_ReportBaselineOSCmd
  | CS_RecomputeBaselineOSCmd
  | CS_EnableEepromCmd
  | CS_DisableEepromCmd
  | CS_ReportBaselineEntryIDEepromCmd
  | CS_RecomputeBaselineEepromCmd
  | CS_EnableEntryIDEepromCmd
  | CS_DisableEntryIDEepromCmd
  | CS_GetEntryIDEepromCmd
  | CS_EnableMemoryCmd
  | CS_DisableMemoryCmd
  | CS_ReportBaselineEntryIDMemoryCmd
  | CS_RecomputeBaselineMemoryCmd
  | CS_EnableEntryIDMemoryCmd
  | CS_DisableEntryIDMemoryCmd
  | CS_GetEntryIDMemoryCmd
  | CS_EnableTablesCmd
  | CS_DisableTablesCmd
  | CS_ReportBaselineTablesCmd
  | CS_RecomputeBaselineTablesCmd
  | CS_EnableNameTablesCmd
  | CS_DisableNameTablesCmd
  | CS_EnableAppCmd
  | CS_DisableAppCmd
  | CS_ReportBaselineAppCmd
  | CS_RecomputeBaselineAppCmd
  | CS_EnableNameAppCmd
  | CS_DisableNameAppCmd

text \<open>Which handler each case of the switch calls.\<close>

fun CS_ProcessCmd_case :: "CS_CC \<Rightarrow> CS_Handler" where
  "CS_ProcessCmd_case CS_NOOP_CC = CS_NoopCmd"
| "CS_ProcessCmd_case CS_RESET_CC = CS_ResetCmd"
| "CS_ProcessCmd_case CS_ONESHOT_CC = CS_OneShotCmd"
| "CS_ProcessCmd_case CS_CANCEL_ONESHOT_CC = CS_CancelOneShotCmd"
| "CS_ProcessCmd_case CS_ENABLE_ALL_CS_CC = CS_EnableAllCSCmd"
| "CS_ProcessCmd_case CS_DISABLE_ALL_CS_CC = CS_DisableAllCSCmd"
| "CS_ProcessCmd_case CS_ENABLE_CFECORE_CC = CS_EnableCfeCoreCmd"
| "CS_ProcessCmd_case CS_DISABLE_CFECORE_CC = CS_DisableCfeCoreCmd"
| "CS_ProcessCmd_case CS_REPORT_BASELINE_CFECORE_CC = CS_ReportBaselineCfeCoreCmd"
| "CS_ProcessCmd_case CS_RECOMPUTE_BASELINE_CFECORE_CC = CS_RecomputeBaselineCfeCoreCmd"
| "CS_ProcessCmd_case CS_ENABLE_OS_CC = CS_EnableOSCmd"
| "CS_ProcessCmd_case CS_DISABLE_OS_CC = CS_DisableOSCmd"
| "CS_ProcessCmd_case CS_REPORT_BASELINE_OS_CC = CS_ReportBaselineOSCmd"
| "CS_ProcessCmd_case CS_RECOMPUTE_BASELINE_OS_CC = CS_RecomputeBaselineOSCmd"
| "CS_ProcessCmd_case CS_ENABLE_EEPROM_CC = CS_EnableEepromCmd"
| "CS_ProcessCmd_case CS_DISABLE_EEPROM_CC = CS_DisableEepromCmd"
| "CS_ProcessCmd_case CS_REPORT_BASELINE_EEPROM_CC = CS_ReportBaselineEntryIDEepromCmd"
| "CS_ProcessCmd_case CS_RECOMPUTE_BASELINE_EEPROM_CC = CS_RecomputeBaselineEepromCmd"
| "CS_ProcessCmd_case CS_ENABLE_ENTRY_EEPROM_CC = CS_EnableEntryIDEepromCmd"
| "CS_ProcessCmd_case CS_DISABLE_ENTRY_EEPROM_CC = CS_DisableEntryIDEepromCmd"
| "CS_ProcessCmd_case CS_GET_ENTRY_ID_EEPROM_CC = CS_GetEntryIDEepromCmd"
| "CS_ProcessCmd_case CS_ENABLE_MEMORY_CC = CS_EnableMemoryCmd"
| "CS_ProcessCmd_case CS_DISABLE_MEMORY_CC = CS_DisableMemoryCmd"
| "CS_ProcessCmd_case CS_REPORT_BASELINE_MEMORY_CC = CS_ReportBaselineEntryIDMemoryCmd"
| "CS_ProcessCmd_case CS_RECOMPUTE_BASELINE_MEMORY_CC = CS_RecomputeBaselineMemoryCmd"
| "CS_ProcessCmd_case CS_ENABLE_ENTRY_MEMORY_CC = CS_EnableEntryIDMemoryCmd"
| "CS_ProcessCmd_case CS_DISABLE_ENTRY_MEMORY_CC = CS_DisableEntryIDMemoryCmd"
| "CS_ProcessCmd_case CS_GET_ENTRY_ID_MEMORY_CC = CS_GetEntryIDMemoryCmd"
| "CS_ProcessCmd_case CS_ENABLE_TABLES_CC = CS_EnableTablesCmd"
| "CS_ProcessCmd_case CS_DISABLE_TABLES_CC = CS_DisableTablesCmd"
| "CS_ProcessCmd_case CS_REPORT_BASELINE_TABLE_CC = CS_ReportBaselineTablesCmd"
| "CS_ProcessCmd_case CS_RECOMPUTE_BASELINE_TABLE_CC = CS_RecomputeBaselineTablesCmd"
| "CS_ProcessCmd_case CS_ENABLE_NAME_TABLE_CC = CS_EnableNameTablesCmd"
| "CS_ProcessCmd_case CS_DISABLE_NAME_TABLE_CC = CS_DisableNameTablesCmd"
| "CS_ProcessCmd_case CS_ENABLE_APPS_CC = CS_EnableAppCmd"
| "CS_ProcessCmd_case CS_DISABLE_APPS_CC = CS_DisableAppCmd"
| "CS_ProcessCmd_case CS_REPORT_BASELINE_APP_CC = CS_ReportBaselineAppCmd"
| "CS_ProcessCmd_case CS_RECOMPUTE_BASELINE_APP_CC = CS_RecomputeBaselineAppCmd"
| "CS_ProcessCmd_case CS_ENABLE_NAME_APP_CC = CS_EnableNameAppCmd"
| "CS_ProcessCmd_case CS_DISABLE_NAME_APP_CC = CS_DisableNameAppCmd"

subsection \<open>Data\<close>

text \<open>
  The housekeeping packet (\<open>CS_HkPacket_t\<close>, declared in cs\_msg.h): the fields that
  cs\_app.c reads or writes. The counters and the seven checksum states are single bytes,
  the width of the \<open>uint8 DataStoreBuffer\<close> elements they are copied to and from.
  \<open>TlmHeader\<close> keeps the time stamp of the telemetry header.
\<close>

record CS_HkPacket_t =
  TlmHeader :: nat
  CmdCounter :: uint8
  CmdErrCounter :: uint8
  ChecksumState :: uint8
  EepromCSState :: uint8
  MemoryCSState :: uint8
  AppCSState :: uint8
  TablesCSState :: uint8
  OSCSState :: uint8
  CfeCoreCSState :: uint8
  RecomputeInProgress :: bool
  OneShotInProgress :: bool
  CurrentCSTable :: uint16
  CurrentEntryInTable :: uint16

text \<open>
  The application's global data (\<open>CS_AppData_t\<close>). \<open>Rest\<close> is everything cs\_app.c
  itself never names (tables, table handles, the command pipe, code segments): only the
  routines of the other files touch it.
\<close>

record 'r CS_AppData_t =
  HkPacket :: CS_HkPacket_t
  RunStatus :: CFE_ES_RunStatus
  DataStoreHandle :: CFE_ES_CDSHandle_t
  MaxBytesPerCycle :: uint32
  Rest :: 'r

text \<open>A software bus message, as far as cs\_app.c inspects it.\<close>

record CFE_SB_Buffer_t =
  MsgId :: uint32
  FcnCode :: uint16
  MsgSize :: nat

text \<open>
  The world: \<open>CS_AppData\<close>, and what cFE holds on the application's behalf. \<open>CDS\<close> is
  the block registered under \<open>CS_CDS_NAME\<close> with its handle, \<open>None\<close> while none is
  registered. Events, system log lines and telemetry packets are kept in the order sent.
\<close>

record 'r CS_World =
  CS_AppData :: "'r CS_AppData_t"
  CDS :: "(CFE_ES_CDSHandle_t \<times> uint8 list) option"
  Events :: "(CS_EventID \<times> CFE_EVS_EventType) list"
  SysLog :: nat
  TlmOut :: "CS_HkPacket_t list"

text \<open>
  The platform and mission configuration (cs\_platform\_cfg.h, cs\_msgdefs.h,
  cs\_msgids.h, cs\_msg.h): the macros that cs\_app.c uses and that are defined
  elsewhere, taken as parameters.
\<close>

record CS_Config =
  CS_EEPROM_TBL_POWERON_STATE :: uint8
  CS_MEMORY_TBL_POWERON_STATE :: uint8
  CS_APPS_TBL_POWERON_STATE :: uint8
  CS_TABLES_TBL_POWERON_STATE :: uint8
  CS_OSCS_CHECKSUM_STATE :: uint8
  CS_CFECORE_CHECKSUM_STATE :: uint8
  CS_STATE_ENABLED :: uint8
  CS_DEFAULT_BYTES_PER_CYCLE :: uint32
  CS_PRESERVE_STATES_ON_PROCESSOR_RESET :: bool
  CS_SEND_HK_MID :: uint32
  CS_BACKGROUND_CYCLE_MID :: uint32
  CS_CMD_MID :: uint32
  CC_value :: "CS_CC \<Rightarrow> uint16"
  sizeof_CS_NoArgsCmd_t :: nat

text \<open>
  The environment of one call: the status each cFE service answers with, and the routines
  of the application's other files (cs\_init.c, cs\_utils.c, cs\_compute.c and the command
  files), which are free to change the whole world. A \<open>Fault\<close> of \<open>CFE_SUCCESS\<close>
  lets the CDS service do its work; any other value makes it fail with that status.
\<close>

record 'r CS_Env =
  EVS_Register_Status :: int32
  EVS_SendEvent_Status :: int32
  RegisterCDS_Fault :: int32
  CopyToCDS_Fault :: int32
  RestoreFromCDS_Fault :: int32
  NewCDSHandle :: CFE_ES_CDSHandle_t
  MissionTime :: nat
  ZeroedRest :: 'r
  CS_SbInit :: "'r CS_World \<Rightarrow> int32 \<times> 'r CS_World"
  CS_InitializeDefaultTables :: "'r CS_World \<Rightarrow> 'r CS_World"
  CS_InitAllTables :: "'r CS_World \<Rightarrow> int32 \<times> 'r CS_World"
  CS_InitSegments :: "'r CS_World \<Rightarrow> 'r CS_World"
  CS_HandleRoutineTableUpdates :: "'r CS_World \<Rightarrow> int32 \<times> 'r CS_World"
  CS_BackgroundCheckCycle :: "CFE_SB_Buffer_t \<Rightarrow> 'r CS_World \<Rightarrow> 'r CS_World"
  CS_CmdHandler :: "CS_Handler \<Rightarrow> CFE_SB_Buffer_t \<Rightarrow> 'r CS_World \<Rightarrow> 'r CS_World"

subsection \<open>The cFE services\<close>

text \<open>Assignments to \<open>CS_AppData.HkPacket\<close> and \<open>CS_AppData.DataStoreHandle\<close>.\<close>

definition set_HkPacket ::
  "(CS_HkPacket_t \<Rightarrow> CS_HkPacket_t) \<Rightarrow> 'r CS_World \<Rightarrow> 'r CS_World" where
  "set_HkPacket f w =
     w\<lparr>CS_AppData := (CS_AppData w)\<lparr>HkPacket := f (HkPacket (CS_AppData w))\<rparr>\<rparr>"

definition set_DataStoreHandle ::
  "CFE_ES_CDSHandle_t \<Rightarrow> 'r CS_World \<Rightarrow> 'r CS_World" where
  "set_DataStoreHandle h w = w\<lparr>CS_AppData := (CS_AppData w)\<lparr>DataStoreHandle := h\<rparr>\<rparr>"

text \<open>
  What the other cFE services leave behind: an event sent is appended to the events, a
  system log line is counted, the time stamp goes into the telemetry header, and a
  transmitted housekeeping packet is appended to the telemetry as it then is.
\<close>

definition CFE_EVS_SendEvent ::
  "CS_EventID \<Rightarrow> CFE_EVS_EventType \<Rightarrow> 'r CS_World \<Rightarrow> 'r CS_World" where
  "CFE_EVS_SendEvent EventId EventType w = w\<lparr>Events := Events w @ [(EventId, EventType)]\<rparr>"

definition CFE_ES_WriteToSysLog :: "'r CS_World \<Rightarrow> 'r CS_World" where
  "CFE_ES_WriteToSysLog w = w\<lparr>SysLog := Suc (SysLog w)\<rparr>"

definition CFE_SB_TimeStampMsg :: "nat \<Rightarrow> 'r CS_World \<Rightarrow> 'r CS_World" where
  "CFE_SB_TimeStampMsg now w = set_HkPacket (\<lambda>hk. hk\<lparr>TlmHeader := now\<rparr>) w"

definition CFE_SB_TransmitMsg :: "'r CS_World \<Rightarrow> 'r CS_World" where
  "CFE_SB_TransmitMsg w = w\<lparr>TlmOut := TlmOut w @ [HkPacket (CS_AppData w)]\<rparr>"

text \<open>
  The Critical Data Store belongs to cFE Executive Services and is outside the repository.
  The spec asks three things of it: "does this key already exist", "write N bytes at key"
  and "read N bytes at key", each all-or-nothing, so that a failing call leaves the stored
  content untouched. A \<open>fault\<close> other than \<open>CFE_SUCCESS\<close> makes a service fail with that
  status.
\<close>

text \<open>
  Modelled from the spec: registration, "does this key already exist". It answers
  \<open>CFE_ES_CDS_ALREADY_EXISTS\<close> and the block's handle for a registered block of the
  requested size, and otherwise creates a zero-filled block of that size under the handle
  \<open>fresh\<close>.
\<close>

definition CFE_ES_RegisterCDS ::
  "int32 \<Rightarrow> CFE_ES_CDSHandle_t \<Rightarrow> nat \<Rightarrow> (CFE_ES_CDSHandle_t \<times> uint8 list) option
     \<Rightarrow> int32 \<times> CFE_ES_CDSHandle_t \<times> (CFE_ES_CDSHandle_t \<times> uint8 list) option" where
  "CFE_ES_RegisterCDS fault fresh BlockSize cds =
     (if fault \<noteq> CFE_SUCCESS then (fault, CFE_ES_CDS_BAD_HANDLE, cds)
      else case cds of
        None \<Rightarrow> (CFE_SUCCESS, fresh, Some (fresh, replicate BlockSize 0))
      | Some (h, b) \<Rightarrow>
          if length b = BlockSize then (CFE_ES_CDS_ALREADY_EXISTS, h, cds)
          else (CFE_SUCCESS, fresh, Some (fresh, replicate BlockSize 0)))"

text \<open>
  Modelled from the spec: "write N bytes at key". The copy replaces the content of the
  block that the handle names; without such a block it fails.
\<close>

definition CFE_ES_CopyToCDS ::
  "int32 \<Rightarrow> CFE_ES_CDSHandle_t \<Rightarrow> uint8 list \<Rightarrow> (CFE_ES_CDSHandle_t \<times> uint8 list) option
     \<Rightarrow> int32 \<times> (CFE_ES_CDSHandle_t \<times> uint8 list) option" where
  "CFE_ES_CopyToCDS fault Handle DataToCopy cds =
     (if fault \<noteq> CFE_SUCCESS then (fault, cds)
      else case cds of
        None \<Rightarrow> (CFE_ES_ERR_RESOURCEID_NOT_VALID, cds)
      | Some (h, b) \<Rightarrow>
          if h = Handle then (CFE_SUCCESS, Some (h, DataToCopy))
          else (CFE_ES_ERR_RESOURCEID_NOT_VALID, cds))"

text \<open>
  Modelled from the spec: "read N bytes at key". The restore fills the caller's buffer
  from the block that the handle names; without such a block, or on a fault, the buffer
  keeps its content.
\<close>

definition CFE_ES_RestoreFromCDS ::
  "int32 \<Rightarrow> uint8 list \<Rightarrow> CFE_ES_CDSHandle_t \<Rightarrow> (CFE_ES_CDSHandle_t \<times> uint8 list) option
     \<Rightarrow> int32 \<times> uint8 list" where
  "CFE_ES_RestoreFromCDS fault RestoreToMemory Handle cds =
     (if fault \<noteq> CFE_SUCCESS then (fault, RestoreToMemory)
      else case cds of
        None \<Rightarrow> (CFE_ES_ERR_RESOURCEID_NOT_VALID, RestoreToMemory)
      | Some (h, b) \<Rightarrow>
          if h = Handle
          then (CFE_SUCCESS, take (length RestoreToMemory) b @ drop (length b) RestoreToMemory)
          else (CFE_ES_ERR_RESOURCEID_NOT_VALID, RestoreToMemory))"

subsection \<open>Persistence of the class states\<close>

text \<open>
  \<open>CS_CreateRestoreStatesFromCDS\<close>: register the CDS block; write the current states
  to a new block or read them back from an existing one; on any failure fall back to the
  configured states, drop the handle, report, and return success all the same.
\<close>

definition CS_CreateRestoreStatesFromCDS ::
  "CS_Config \<Rightarrow> 'r CS_Env \<Rightarrow> 'r CS_World \<Rightarrow> int32 \<times> 'r CS_World" where
  "CS_CreateRestoreStatesFromCDS cfg env w0 =
    (let DataStoreBuffer = replicate CS_NUM_DATA_STORE_STATES (0 :: uint8);
         EventId = CS_EID_UNSET;
         (Result, Handle, cds) =
            CFE_ES_RegisterCDS (RegisterCDS_Fault env) (NewCDSHandle env)
              (length DataStoreBuffer) (CDS w0);
         w1 = set_DataStoreHandle Handle (w0\<lparr>CDS := cds\<rparr>);
         (Result, EventId, w2) =
           (if Result = CFE_SUCCESS then
              let hk = HkPacket (CS_AppData w1);
                  DataStoreBuffer = DataStoreBuffer
                    [0 := EepromCSState hk,
                     1 := MemoryCSState hk,
                     2 := AppCSState hk,
                     3 := TablesCSState hk,
                     4 := OSCSState hk,
                     5 := CfeCoreCSState hk];
                  (Result, cds) =
                     CFE_ES_CopyToCDS (CopyToCDS_Fault env)
                       (DataStoreHandle (CS_AppData w1)) DataStoreBuffer (CDS w1)
              in (Result,
                  if Result \<noteq> CFE_SUCCESS then CS_CR_CDS_CPY_ERR_EID else EventId,
                  w1\<lparr>CDS := cds\<rparr>)
            else if Result = CFE_ES_CDS_ALREADY_EXISTS then
              let (Result, DataStoreBuffer) =
                     CFE_ES_RestoreFromCDS (RestoreFromCDS_Fault env) DataStoreBuffer
                       (DataStoreHandle (CS_AppData w1)) (CDS w1)
              in if Result = CFE_SUCCESS then
                   (Result, EventId,
                    set_HkPacket (\<lambda>hk. hk
                      \<lparr>EepromCSState := DataStoreBuffer ! 0,
                       MemoryCSState := DataStoreBuffer ! 1,
                       AppCSState := DataStoreBuffer ! 2,
                       TablesCSState := DataStoreBuffer ! 3,
                       OSCSState := DataStoreBuffer ! 4,
                       CfeCoreCSState := DataStoreBuffer ! 5\<rparr>) w1)
                 else (Result, CS_CR_CDS_RES_ERR_EID, w1)
            else (Result, CS_CR_CDS_REG_ERR_EID, w1))
     in if Result \<noteq> CFE_SUCCESS then
          (CFE_SUCCESS,
           CFE_EVS_SendEvent EventId CFE_EVS_EventType_ERROR
             (set_HkPacket (\<lambda>hk. hk
                \<lparr>EepromCSState := CS_EEPROM_TBL_POWERON_STATE cfg,
                 MemoryCSState := CS_MEMORY_TBL_POWERON_STATE cfg,
                 AppCSState := CS_APPS_TBL_POWERON_STATE cfg,
                 TablesCSState := CS_TABLES_TBL_POWERON_STATE cfg,
                 OSCSState := CS_OSCS_CHECKSUM_STATE cfg,
                 CfeCoreCSState := CS_CFECORE_CHECKSUM_STATE cfg\<rparr>)
                (set_DataStoreHandle CFE_ES_CDS_BAD_HANDLE w2)))
        else (Result, w2))"

text \<open>
  \<open>CS_UpdateCDS\<close>: with a defined handle, copy all six states to the block; a failed
  copy is reported and drops the handle. The local buffer is uninitialised in C and all
  six of its elements are assigned before it is used.
\<close>

definition CS_UpdateCDS :: "'r CS_Env \<Rightarrow> 'r CS_World \<Rightarrow> 'r CS_World" where
  "CS_UpdateCDS env w =
    (if CFE_RESOURCEID_TEST_DEFINED (DataStoreHandle (CS_AppData w)) then
       let hk = HkPacket (CS_AppData w);
           DataStoreBuffer = (replicate CS_NUM_DATA_STORE_STATES (0 :: uint8))
             [0 := EepromCSState hk,
              1 := MemoryCSState hk,
              2 := AppCSState hk,
              3 := TablesCSState hk,
              4 := OSCSState hk,
              5 := CfeCoreCSState hk];
           (Result, cds) =
              CFE_ES_CopyToCDS (CopyToCDS_Fault env)
                (DataStoreHandle (CS_AppData w)) DataStoreBuffer (CDS w);
           w1 = w\<lparr>CDS := cds\<rparr>
       in if Result \<noteq> CFE_SUCCESS then
            set_DataStoreHandle CFE_ES_CDS_BAD_HANDLE
              (CFE_EVS_SendEvent CS_UPDATE_CDS_ERR_EID CFE_EVS_EventType_ERROR w1)
          else w1
     else w)"

subsection \<open>Housekeeping and command dispatch\<close>

text \<open>
  \<open>CS_HousekeepingCmd\<close>: a request of the wrong length is reported; one of the right
  length gets the housekeeping packet, time-stamped, sent out.
\<close>

definition CS_HousekeepingCmd ::
  "CS_Config \<Rightarrow> 'r CS_Env \<Rightarrow> CFE_SB_Buffer_t \<Rightarrow> 'r CS_World \<Rightarrow> 'r CS_World" where
  "CS_HousekeepingCmd cfg env CmdPtr w =
    (let ExpectedLength = sizeof_CS_NoArgsCmd_t cfg;
         ActualLength = MsgSize CmdPtr
     in if ExpectedLength \<noteq> ActualLength then
          CFE_EVS_SendEvent CS_LEN_ERR_EID CFE_EVS_EventType_ERROR w
        else CFE_SB_TransmitMsg (CFE_SB_TimeStampMsg (MissionTime env) w))"

text \<open>
  \<open>CS_ProcessCmd\<close>: the switch on the command code. The case whose label has the
  value of the command code runs its handler; a code that no label has goes to
  \<open>default\<close>.
\<close>

definition CS_ProcessCmd ::
  "CS_Config \<Rightarrow> 'r CS_Env \<Rightarrow> CFE_SB_Buffer_t \<Rightarrow> 'r CS_World \<Rightarrow> 'r CS_World" where
  "CS_ProcessCmd cfg env BufPtr w =
    (let CommandCode = FcnCode BufPtr
     in case find (\<lambda>c. CC_value cfg c = CommandCode) CS_ProcessCmd_labels of
          Some c \<Rightarrow> CS_CmdHandler env (CS_ProcessCmd_case c) BufPtr w
        | None \<Rightarrow>
            set_HkPacket (\<lambda>hk. hk\<lparr>CmdErrCounter := CmdErrCounter hk + 1\<rparr>)
              (CFE_EVS_SendEvent CS_CC1_ERR_EID CFE_EVS_EventType_ERROR w))"

text \<open>\<open>CS_AppPipe\<close>: the switch on the message identifier.\<close>

definition CS_AppPipe ::
  "CS_Config \<Rightarrow> 'r CS_Env \<Rightarrow> CFE_SB_Buffer_t \<Rightarrow> 'r CS_World \<Rightarrow> int32 \<times> 'r CS_World" where
  "CS_AppPipe cfg env BufPtr w =
    (let MessageID = MsgId BufPtr;
         Result = CFE_SUCCESS
     in if MessageID = CS_SEND_HK_MID cfg then
          CS_HandleRoutineTableUpdates env (CS_HousekeepingCmd cfg env BufPtr w)
        else if MessageID = CS_BACKGROUND_CYCLE_MID cfg then
          (Result, CS_BackgroundCheckCycle env BufPtr w)
        else if MessageID = CS_CMD_MID cfg then
          (Result, CS_ProcessCmd cfg env BufPtr w)
        else
          (Result,
           set_HkPacket (\<lambda>hk. hk\<lparr>CmdErrCounter := CmdErrCounter hk + 1\<rparr>)
             (CFE_EVS_SendEvent CS_MID_ERR_EID CFE_EVS_EventType_ERROR w)))"

subsection \<open>Initialisation\<close>

text \<open>\<open>memset(&CS_AppData, 0, sizeof(CS_AppData))\<close>.\<close>

definition memset_CS_AppData :: "'r \<Rightarrow> 'r CS_AppData_t" where
  "memset_CS_AppData zr =
     \<lparr>HkPacket =
        \<lparr>TlmHeader = 0, CmdCounter = 0, CmdErrCounter = 0, ChecksumState = 0,
         EepromCSState = 0, MemoryCSState = 0, AppCSState = 0, TablesCSState = 0,
         OSCSState = 0, CfeCoreCSState = 0,
         RecomputeInProgress = False, OneShotInProgress = False,
         CurrentCSTable = 0, CurrentEntryInTable = 0\<rparr>,
      RunStatus = CFE_ES_RunStatus_UNDEFINED,
      DataStoreHandle = 0,
      MaxBytesPerCycle = 0,
      Rest = zr\<rparr>"

text \<open>
  \<open>CS_AppInit\<close>: each step runs only while \<open>Result\<close> is still \<open>CFE_SUCCESS\<close>.
  The call of \<open>CS_CreateRestoreStatesFromCDS\<close> is compiled in when
  \<open>CS_PRESERVE_STATES_ON_PROCESSOR_RESET\<close> is true.
\<close>

definition CS_AppInit ::
  "CS_Config \<Rightarrow> 'r CS_Env \<Rightarrow> 'r CS_World \<Rightarrow> int32 \<times> 'r CS_World" where
  "CS_AppInit cfg env w0 =
    (let Result = EVS_Register_Status env;
         w1 = (if Result \<noteq> CFE_SUCCESS then CFE_ES_WriteToSysLog w0 else w0);
         (Result, w2) =
           (if Result = CFE_SUCCESS then
              CS_SbInit env
                (w1\<lparr>CS_AppData :=
                     (memset_CS_AppData (ZeroedRest env))
                       \<lparr>RunStatus := CFE_ES_RunStatus_APP_RUN\<rparr>\<rparr>)
            else (Result, w1));
         (Result, w3) =
           (if Result = CFE_SUCCESS then
              let w = CS_InitializeDefaultTables env w2;
                  w = set_HkPacket (\<lambda>hk. hk
                        \<lparr>EepromCSState := CS_EEPROM_TBL_POWERON_STATE cfg,
                         MemoryCSState := CS_MEMORY_TBL_POWERON_STATE cfg,
                         AppCSState := CS_APPS_TBL_POWERON_STATE cfg,
                         TablesCSState := CS_TABLES_TBL_POWERON_STATE cfg,
                         OSCSState := CS_OSCS_CHECKSUM_STATE cfg,
                         CfeCoreCSState := CS_CFECORE_CHECKSUM_STATE cfg\<rparr>) w
              in if CS_PRESERVE_STATES_ON_PROCESSOR_RESET cfg
                 then CS_CreateRestoreStatesFromCDS cfg env w
                 else (Result, w)
            else (Result, w2));
         (Result, w4) =
           (if Result = CFE_SUCCESS then CS_InitAllTables env w3 else (Result, w3));
         (Result, w5) =
           (if Result = CFE_SUCCESS then
              let w = CS_InitSegments env w4;
                  w = set_HkPacket (\<lambda>hk. hk
                        \<lparr>CurrentCSTable := 0,
                         CurrentEntryInTable := 0,
                         ChecksumState := CS_STATE_ENABLED cfg,
                         RecomputeInProgress := False,
                         OneShotInProgress := False\<rparr>) w;
                  w = w\<lparr>CS_AppData :=
                         (CS_AppData w)\<lparr>MaxBytesPerCycle := CS_DEFAULT_BYTES_PER_CYCLE cfg\<rparr>\<rparr>
              in (EVS_SendEvent_Status env,
                  CFE_EVS_SendEvent CS_INIT_INF_EID CFE_EVS_EventType_INFORMATION w)
            else (Result, w4))
     in (Result, w5))"

subsection \<open>The start-up routines of cs\_init.c\<close>

text \<open>
  Modelled from the spec: what the start-up routines \<open>CS_SbInit\<close>,
  \<open>CS_InitializeDefaultTables\<close>, \<open>CS_InitAllTables\<close> and \<open>CS_InitSegments\<close> of
  cs\_init.c, which is missing, leave untouched. Start-up consumes the "per-class default
  enable/disable state", the "per-class default entry list" and the "MaxBytesPerCycle
  default": \<open>CS_AppInit\<close> itself assigns the states and the budget, and these routines
  take the entry lists into the target registry. "The Target Registry exclusively owns
  Entry records", "the Persistence Bridge has read/write access only to the six
  ChecksumState values", and the store is reached through the persistence bridge alone. So
  whatever such a routine does to the world \<open>w\<close>, giving \<open>w'\<close>, the six class states
  and the store are afterwards as they were in \<open>w\<close>.
\<close>

definition init_leaves_untouched :: "'r CS_World \<Rightarrow> 'r CS_World \<Rightarrow> 'r CS_World" where
  "init_leaves_untouched w w' =
     (set_HkPacket (\<lambda>hk. hk
        \<lparr>EepromCSState := EepromCSState (HkPacket (CS_AppData w)),
         MemoryCSState := MemoryCSState (HkPacket (CS_AppData w)),
         AppCSState := AppCSState (HkPacket (CS_AppData w)),
         TablesCSState := TablesCSState (HkPacket (CS_AppData w)),
         OSCSState := OSCSState (HkPacket (CS_AppData w)),
         CfeCoreCSState := CfeCoreCSState (HkPacket (CS_AppData w))\<rparr>) w')
     \<lparr>CDS := CDS w\<rparr>"

text \<open>
  Modelled from the spec: an environment whose four start-up routines of cs\_init.c, which
  is missing, are as the spec has them. Each does what the routine of \<open>env\<close> does to the
  registry, the events and all the rest, returns the same status, and leaves the six class
  states and the store untouched.
\<close>

definition spec_init_routines :: "'r CS_Env \<Rightarrow> 'r CS_Env" where
  "spec_init_routines env =
     env\<lparr>CS_SbInit :=
           (\<lambda>w. case CS_SbInit env w of (rc, w') \<Rightarrow> (rc, init_leaves_untouched w w')),
         CS_InitializeDefaultTables :=
           (\<lambda>w. init_leaves_untouched w (CS_InitializeDefaultTables env w)),
         CS_InitAllTables :=
           (\<lambda>w. case CS_InitAllTables env w of (rc, w') \<Rightarrow> (rc, init_leaves_untouched w w')),
         CS_InitSegments :=
           (\<lambda>w. init_leaves_untouched w (CS_InitSegments env w))\<rparr>"

subsection \<open>Auxiliary definitions for the properties\<close>

text \<open>
  The six class states of a housekeeping packet, listed in the order EEPROM, Memory, Apps,
  Tables, OS code segment, cFE core.
\<close>

definition CS_StateBytes :: "CS_HkPacket_t \<Rightarrow> uint8 list" where
  "CS_StateBytes hk =
     [EepromCSState hk, MemoryCSState hk, AppCSState hk, TablesCSState hk,
      OSCSState hk, CfeCoreCSState hk]"

text \<open>
  A sample configuration, environment and world on which the properties are exercised.
  The sample configuration numbers the command codes by the position of their case label;
  the sample environment has every cFE service succeed and the routines of the other
  files do nothing.
\<close>

fun position :: "'a \<Rightarrow> 'a list \<Rightarrow> nat" where
  "position x [] = 0"
| "position x (y # ys) = (if x = y then 0 else Suc (position x ys))"

definition sample_cfg :: CS_Config where
  "sample_cfg =
     \<lparr>CS_EEPROM_TBL_POWERON_STATE = 1,
      CS_MEMORY_TBL_POWERON_STATE = 2,
      CS_APPS_TBL_POWERON_STATE = 1,
      CS_TABLES_TBL_POWERON_STATE = 2,
      CS_OSCS_CHECKSUM_STATE = 1,
      CS_CFECORE_CHECKSUM_STATE = 1,
      CS_STATE_ENABLED = 1,
      CS_DEFAULT_BYTES_PER_CYCLE = 16384,
      CS_PRESERVE_STATES_ON_PROCESSOR_RESET = True,
      CS_SEND_HK_MID = 0x18A0,
      CS_BACKGROUND_CYCLE_MID = 0x18A1,
      CS_CMD_MID = 0x189F,
      CC_value = (\<lambda>c. of_nat (position c CS_ProcessCmd_labels)),
      sizeof_CS_NoArgsCmd_t = 8\<rparr>"

definition sample_env :: "unit CS_Env" where
  "sample_env =
     \<lparr>EVS_Register_Status = CFE_SUCCESS,
      EVS_SendEvent_Status = CFE_SUCCESS,
      RegisterCDS_Fault = CFE_SUCCESS,
      CopyToCDS_Fault = CFE_SUCCESS,
      RestoreFromCDS_Fault = CFE_SUCCESS,
      NewCDSHandle = 0x0A,
      MissionTime = 1000,
      ZeroedRest = (),
      CS_SbInit = (\<lambda>w. (CFE_SUCCESS, w)),
      CS_InitializeDefaultTables = (\<lambda>w. w),
      CS_InitAllTables = (\<lambda>w. (CFE_SUCCESS, w)),
      CS_InitSegments = (\<lambda>w. w),
      CS_HandleRoutineTableUpdates = (\<lambda>w. (CFE_SUCCESS, w)),
      CS_BackgroundCheckCycle = (\<lambda>b w. w),
      CS_CmdHandler = (\<lambda>h b w. w)\<rparr>"

definition sample_hk :: CS_HkPacket_t where
  "sample_hk =
     \<lparr>TlmHeader = 0, CmdCounter = 3, CmdErrCounter = 1, ChecksumState = 2,
      EepromCSState = 2, MemoryCSState = 1, AppCSState = 2, TablesCSState = 1,
      OSCSState = 2, CfeCoreCSState = 1,
      RecomputeInProgress = False, OneShotInProgress = True,
      CurrentCSTable = 4, CurrentEntryInTable = 7\<rparr>"

text \<open>A running application with a registered block; and the same with no block at all.\<close>

definition sample_world :: "unit CS_World" where
  "sample_world =
     \<lparr>CS_AppData =
        \<lparr>HkPacket = sample_hk, RunStatus = CFE_ES_RunStatus_APP_RUN,
         DataStoreHandle = 0x0A, MaxBytesPerCycle = 16384, Rest = ()\<rparr>,
      CDS = Some (0x0A, [1, 2, 1, 2, 1, 1]),
      Events = [],
      SysLog = 0,
      TlmOut = []\<rparr>"

definition blank_world :: "unit CS_World" where
  "blank_world =
     \<lparr>CS_AppData =
        \<lparr>HkPacket = sample_hk, RunStatus = CFE_ES_RunStatus_UNDEFINED,
         DataStoreHandle = 0, MaxBytesPerCycle = 0, Rest = ()\<rparr>,
      CDS = None,
      Events = [],
      SysLog = 0,
      TlmOut = []\<rparr>"

section \<open>Properties\<close>

subsection \<open>Basic facts\<close>

lemma DataStoreBuffer_filled:
  "(replicate CS_NUM_DATA_STORE_STATES (z :: uint8))
      [0 := a, 1 := b, 2 := c, 3 := d, 4 := e, 5 := f] = [a, b, c, d, e, f]"
  by (simp add: CS_NUM_DATA_STORE_STATES_def eval_nat_numeral)

lemma status_distinct [simp]:
  "CFE_ES_ERR_RESOURCEID_NOT_VALID \<noteq> CFE_SUCCESS"
  "CFE_ES_CDS_ALREADY_EXISTS \<noteq> CFE_SUCCESS"
  "CFE_SUCCESS \<noteq> CFE_ES_CDS_ALREADY_EXISTS"
  by (simp_all add: CFE_ES_ERR_RESOURCEID_NOT_VALID_def CFE_SUCCESS_def
      CFE_ES_CDS_ALREADY_EXISTS_def)

lemma BAD_HANDLE_undefined: "\<not> CFE_RESOURCEID_TEST_DEFINED CFE_ES_CDS_BAD_HANDLE"
  by (simp add: CFE_RESOURCEID_TEST_DEFINED_def CFE_ES_CDS_BAD_HANDLE_def)

lemma CopyToCDS_cases:
  "CFE_ES_CopyToCDS fault h d cds = (CFE_SUCCESS, Some (h, d)) \<or>
   (fst (CFE_ES_CopyToCDS fault h d cds) \<noteq> CFE_SUCCESS \<and>
    snd (CFE_ES_CopyToCDS fault h d cds) = cds)"
  by (auto simp: CFE_ES_CopyToCDS_def split: option.splits)

subsection \<open>Rewriting the block\<close>

lemma CS_UpdateCDS_undefined:
  "\<not> CFE_RESOURCEID_TEST_DEFINED (DataStoreHandle (CS_AppData w)) \<Longrightarrow> CS_UpdateCDS env w = w"
  by (simp add: CS_UpdateCDS_def)

lemma CS_UpdateCDS_written:
  assumes "CFE_RESOURCEID_TEST_DEFINED (DataStoreHandle (CS_AppData w))"
    and "fst (CFE_ES_CopyToCDS (CopyToCDS_Fault env) (DataStoreHandle (CS_AppData w))
               (CS_StateBytes (HkPacket (CS_AppData w))) (CDS w)) = CFE_SUCCESS"
  shows "CS_UpdateCDS env w =
           w\<lparr>CDS := Some (DataStoreHandle (CS_AppData w),
                          CS_StateBytes (HkPacket (CS_AppData w)))\<rparr>"
  using assms CopyToCDS_cases [of "CopyToCDS_Fault env" "DataStoreHandle (CS_AppData w)"
      "CS_StateBytes (HkPacket (CS_AppData w))" "CDS w"]
  unfolding CS_UpdateCDS_def Let_def DataStoreBuffer_filled CS_StateBytes_def
  by auto

lemma CS_UpdateCDS_failed:
  assumes "CFE_RESOURCEID_TEST_DEFINED (DataStoreHandle (CS_AppData w))"
    and "fst (CFE_ES_CopyToCDS (CopyToCDS_Fault env) (DataStoreHandle (CS_AppData w))
               (CS_StateBytes (HkPacket (CS_AppData w))) (CDS w)) \<noteq> CFE_SUCCESS"
  shows "CS_UpdateCDS env w =
           set_DataStoreHandle CFE_ES_CDS_BAD_HANDLE
             (CFE_EVS_SendEvent CS_UPDATE_CDS_ERR_EID CFE_EVS_EventType_ERROR w)"
  using assms CopyToCDS_cases [of "CopyToCDS_Fault env" "DataStoreHandle (CS_AppData w)"
      "CS_StateBytes (HkPacket (CS_AppData w))" "CDS w"]
  unfolding CS_UpdateCDS_def Let_def DataStoreBuffer_filled CS_StateBytes_def
  by (auto split: prod.splits)

lemma CS_UpdateCDS_HkPacket:
  "HkPacket (CS_AppData (CS_UpdateCDS env w)) = HkPacket (CS_AppData w)"
  by (simp add: CS_UpdateCDS_def Let_def set_DataStoreHandle_def CFE_EVS_SendEvent_def
      split: prod.splits)

text \<open>
  Once the handle is the bad handle, a run of further calls, each after some change
  \<open>f\<close> to the housekeeping packet, changes nothing but the packet.
\<close>

lemma later_updates_write_nothing:
  fixes w :: "'r CS_World"
  assumes "DataStoreHandle (CS_AppData w) = CFE_ES_CDS_BAD_HANDLE"
  shows "foldl (\<lambda>w (e, f). CS_UpdateCDS e (set_HkPacket f w)) w calls
           = set_HkPacket (\<lambda>hk. foldl (\<lambda>hk (e, f). f hk) hk calls) w"
  using assms
proof (induction calls arbitrary: w)
  case Nil
  then show ?case by (simp add: set_HkPacket_def)
next
  case (Cons c calls)
  obtain e f where c: "c = (e, f)" by (cases c)
  have h: "DataStoreHandle (CS_AppData (set_HkPacket f w)) = CFE_ES_CDS_BAD_HANDLE"
    using Cons.prems by (simp add: set_HkPacket_def)
  then have "CS_UpdateCDS e (set_HkPacket f w) = set_HkPacket f w"
    by (simp add: CS_UpdateCDS_undefined BAD_HANDLE_undefined)
  with Cons.IH [OF h] show ?case
    by (simp add: c set_HkPacket_def)
qed

subsection \<open>The sample values\<close>

lemma sample_bytes: "CS_StateBytes sample_hk = [2, 1, 2, 1, 2, 1]"
  by (simp add: CS_StateBytes_def sample_hk_def)

lemma sample_world_sel [simp]:
  "DataStoreHandle (CS_AppData sample_world) = 0x0A"
  "HkPacket (CS_AppData sample_world) = sample_hk"
  "CDS sample_world = Some (0x0A, [1, 2, 1, 2, 1, 1])"
  "Events sample_world = []"
  by (simp_all add: sample_world_def)

lemma blank_world_sel [simp]:
  "DataStoreHandle (CS_AppData blank_world) = 0"
  "HkPacket (CS_AppData blank_world) = sample_hk"
  "CDS blank_world = None"
  "Events blank_world = []"
  by (simp_all add: blank_world_def)

lemma sample_env_sel [simp]:
  "RegisterCDS_Fault sample_env = CFE_SUCCESS"
  "CopyToCDS_Fault sample_env = CFE_SUCCESS"
  "RestoreFromCDS_Fault sample_env = CFE_SUCCESS"
  "NewCDSHandle sample_env = 0x0A"
  "EVS_Register_Status sample_env = CFE_SUCCESS"
  "EVS_SendEvent_Status sample_env = CFE_SUCCESS"
  by (simp_all add: sample_env_def)

subsection \<open>Fail-once rewriting\<close>

text \<open>
  Claim C4. \<open>CS_UpdateCDS\<close> never changes the housekeeping packet, so no class state. With
  an undefined handle it does nothing at all. With a defined handle it hands all six state
  bytes to the store: when the copy succeeds, the block holds exactly these six bytes
  afterwards; when it fails, the block is left as it was, the error is reported and the
  handle becomes the bad handle, after which any run of further calls (each following
  some change to the packet) writes nothing, sends nothing and leaves the handle bad.
\<close>

theorem CS_UpdateCDS_fail_once:
  fixes env :: "'r CS_Env" and w :: "'r CS_World"
  shows
   "HkPacket (CS_AppData (CS_UpdateCDS env w)) = HkPacket (CS_AppData w) \<and>
    (\<not> CFE_RESOURCEID_TEST_DEFINED (DataStoreHandle (CS_AppData w)) \<longrightarrow>
       CS_UpdateCDS env w = w) \<and>
    (CFE_RESOURCEID_TEST_DEFINED (DataStoreHandle (CS_AppData w)) \<and>
     fst (CFE_ES_CopyToCDS (CopyToCDS_Fault env) (DataStoreHandle (CS_AppData w))
            (CS_StateBytes (HkPacket (CS_AppData w))) (CDS w)) = CFE_SUCCESS \<longrightarrow>
       CS_UpdateCDS env w =
         w\<lparr>CDS := Some (DataStoreHandle (CS_AppData w),
                        CS_StateBytes (HkPacket (CS_AppData w)))\<rparr>) \<and>
    (CFE_RESOURCEID_TEST_DEFINED (DataStoreHandle (CS_AppData w)) \<and>
     fst (CFE_ES_CopyToCDS (CopyToCDS_Fault env) (DataStoreHandle (CS_AppData w))
            (CS_StateBytes (HkPacket (CS_AppData w))) (CDS w)) \<noteq> CFE_SUCCESS \<longrightarrow>
       CS_UpdateCDS env w =
         set_DataStoreHandle CFE_ES_CDS_BAD_HANDLE
           (CFE_EVS_SendEvent CS_UPDATE_CDS_ERR_EID CFE_EVS_EventType_ERROR w) \<and>
       CDS (CS_UpdateCDS env w) = CDS w \<and>
       (\<forall>calls :: ('r CS_Env \<times> (CS_HkPacket_t \<Rightarrow> CS_HkPacket_t)) list.
          CDS (foldl (\<lambda>w (e, f). CS_UpdateCDS e (set_HkPacket f w))
                 (CS_UpdateCDS env w) calls) = CDS w \<and>
          Events (foldl (\<lambda>w (e, f). CS_UpdateCDS e (set_HkPacket f w))
                 (CS_UpdateCDS env w) calls) = Events (CS_UpdateCDS env w) \<and>
          DataStoreHandle (CS_AppData (foldl (\<lambda>w (e, f). CS_UpdateCDS e (set_HkPacket f w))
                 (CS_UpdateCDS env w) calls)) = CFE_ES_CDS_BAD_HANDLE))"
proof (intro conjI impI allI)
  show "HkPacket (CS_AppData (CS_UpdateCDS env w)) = HkPacket (CS_AppData w)"
    by (rule CS_UpdateCDS_HkPacket)
next
  assume "\<not> CFE_RESOURCEID_TEST_DEFINED (DataStoreHandle (CS_AppData w))"
  then show "CS_UpdateCDS env w = w" by (rule CS_UpdateCDS_undefined)
next
  assume "CFE_RESOURCEID_TEST_DEFINED (DataStoreHandle (CS_AppData w)) \<and>
     fst (CFE_ES_CopyToCDS (CopyToCDS_Fault env) (DataStoreHandle (CS_AppData w))
            (CS_StateBytes (HkPacket (CS_AppData w))) (CDS w)) = CFE_SUCCESS"
  then show "CS_UpdateCDS env w =
         w\<lparr>CDS := Some (DataStoreHandle (CS_AppData w),
                        CS_StateBytes (HkPacket (CS_AppData w)))\<rparr>"
    by (simp add: CS_UpdateCDS_written)
next
  let ?bad = "set_DataStoreHandle CFE_ES_CDS_BAD_HANDLE
                (CFE_EVS_SendEvent CS_UPDATE_CDS_ERR_EID CFE_EVS_EventType_ERROR w)"
  assume "CFE_RESOURCEID_TEST_DEFINED (DataStoreHandle (CS_AppData w)) \<and>
     fst (CFE_ES_CopyToCDS (CopyToCDS_Fault env) (DataStoreHandle (CS_AppData w))
            (CS_StateBytes (HkPacket (CS_AppData w))) (CDS w)) \<noteq> CFE_SUCCESS"
  then have failed: "CS_UpdateCDS env w = ?bad"
    by (simp add: CS_UpdateCDS_failed)
  have bad_handle: "DataStoreHandle (CS_AppData ?bad) = CFE_ES_CDS_BAD_HANDLE"
    by (simp add: set_DataStoreHandle_def CFE_EVS_SendEvent_def)
  show "CS_UpdateCDS env w = ?bad" by (rule failed)
  show "CDS (CS_UpdateCDS env w) = CDS w"
    by (simp add: failed set_DataStoreHandle_def CFE_EVS_SendEvent_def)
  fix calls :: "('r CS_Env \<times> (CS_HkPacket_t \<Rightarrow> CS_HkPacket_t)) list"
  let ?run = "foldl (\<lambda>w (e, f). CS_UpdateCDS e (set_HkPacket f w)) (CS_UpdateCDS env w) calls"
  have run: "?run = set_HkPacket (\<lambda>hk. foldl (\<lambda>hk (e, f). f hk) hk calls) ?bad"
    unfolding failed by (rule later_updates_write_nothing [OF bad_handle])
  show "CDS ?run = CDS w"
    unfolding run by (simp add: set_HkPacket_def set_DataStoreHandle_def CFE_EVS_SendEvent_def)
  show "Events ?run = Events (CS_UpdateCDS env w)"
    using run failed by (simp add: set_HkPacket_def)
  show "DataStoreHandle (CS_AppData ?run) = CFE_ES_CDS_BAD_HANDLE"
    unfolding run by (simp add: set_HkPacket_def bad_handle)
qed

theorem CS_UpdateCDS_fail_once_witness:
  "CS_UpdateCDS sample_env sample_world = sample_world\<lparr>CDS := Some (0x0A, [2, 1, 2, 1, 2, 1])\<rparr> \<and>
   CS_UpdateCDS sample_env blank_world = blank_world \<and>
   CDS (CS_UpdateCDS (sample_env\<lparr>CopyToCDS_Fault := 0xC4000006\<rparr>) sample_world)
     = Some (0x0A, [1, 2, 1, 2, 1, 1]) \<and>
   CDS (foldl (\<lambda>w (e, f). CS_UpdateCDS e (set_HkPacket f w))
          (CS_UpdateCDS (sample_env\<lparr>CopyToCDS_Fault := 0xC4000006\<rparr>) sample_world)
          [(sample_env, \<lambda>hk. hk\<lparr>EepromCSState := 1\<rparr>),
           (sample_env, \<lambda>hk. hk\<lparr>TablesCSState := 2\<rparr>)]) = Some (0x0A, [1, 2, 1, 2, 1, 1])"
proof -
  have d: "CFE_RESOURCEID_TEST_DEFINED (DataStoreHandle (CS_AppData sample_world))"
    by (simp add: CFE_RESOURCEID_TEST_DEFINED_def)
  have nd: "\<not> CFE_RESOURCEID_TEST_DEFINED (DataStoreHandle (CS_AppData blank_world))"
    by (simp add: CFE_RESOURCEID_TEST_DEFINED_def)
  have ok: "fst (CFE_ES_CopyToCDS (CopyToCDS_Fault sample_env)
                  (DataStoreHandle (CS_AppData sample_world))
                  (CS_StateBytes (HkPacket (CS_AppData sample_world))) (CDS sample_world))
              = CFE_SUCCESS"
    by (simp add: CFE_ES_CopyToCDS_def)
  have ko: "fst (CFE_ES_CopyToCDS (CopyToCDS_Fault (sample_env\<lparr>CopyToCDS_Fault := 0xC4000006\<rparr>))
                  (DataStoreHandle (CS_AppData sample_world))
                  (CS_StateBytes (HkPacket (CS_AppData sample_world))) (CDS sample_world))
              \<noteq> CFE_SUCCESS"
    by (simp add: CFE_ES_CopyToCDS_def CFE_SUCCESS_def)
  have later:
    "CDS (foldl (\<lambda>w (e, f). CS_UpdateCDS e (set_HkPacket f w))
          (CS_UpdateCDS (sample_env\<lparr>CopyToCDS_Fault := 0xC4000006\<rparr>) sample_world)
          [(sample_env, \<lambda>hk. hk\<lparr>EepromCSState := 1\<rparr>),
           (sample_env, \<lambda>hk. hk\<lparr>TablesCSState := 2\<rparr>)]) = CDS sample_world"
    using CS_UpdateCDS_fail_once [of "sample_env\<lparr>CopyToCDS_Fault := 0xC4000006\<rparr>" sample_world]
      d ko by blast
  have first:
    "CDS (CS_UpdateCDS (sample_env\<lparr>CopyToCDS_Fault := 0xC4000006\<rparr>) sample_world)
       = CDS sample_world"
    using CS_UpdateCDS_fail_once [of "sample_env\<lparr>CopyToCDS_Fault := 0xC4000006\<rparr>" sample_world]
      d ko by blast
  have written:
    "CS_UpdateCDS sample_env sample_world =
       sample_world\<lparr>CDS := Some (DataStoreHandle (CS_AppData sample_world),
                        CS_StateBytes (HkPacket (CS_AppData sample_world)))\<rparr>"
    using CS_UpdateCDS_fail_once [of sample_env sample_world] d ok by blast
  have noop: "CS_UpdateCDS sample_env blank_world = blank_world"
    using CS_UpdateCDS_fail_once [of sample_env blank_world] nd by blast
  show ?thesis
    using later first written noop by (simp add: sample_bytes)
qed

subsection \<open>Creating and restoring the block\<close>

lemma RestoreFromCDS_whole:
  "length b = length buf \<Longrightarrow>
     CFE_ES_RestoreFromCDS CFE_SUCCESS buf h (Some (h, b)) = (CFE_SUCCESS, b)"
  by (simp add: CFE_ES_RestoreFromCDS_def)

lemma CS_CreateRestore_new:
  assumes "RegisterCDS_Fault env = CFE_SUCCESS" and "CopyToCDS_Fault env = CFE_SUCCESS"
    and "CDS w = None"
  shows "CS_CreateRestoreStatesFromCDS cfg env w =
           (CFE_SUCCESS,
            set_DataStoreHandle (NewCDSHandle env)
              (w\<lparr>CDS := Some (NewCDSHandle env, CS_StateBytes (HkPacket (CS_AppData w)))\<rparr>))"
  unfolding CS_CreateRestoreStatesFromCDS_def Let_def DataStoreBuffer_filled
  using assms
  by (simp add: CFE_ES_RegisterCDS_def CFE_ES_CopyToCDS_def set_DataStoreHandle_def
      CS_StateBytes_def)

lemma CS_CreateRestore_existing:
  assumes "RegisterCDS_Fault env = CFE_SUCCESS" and "RestoreFromCDS_Fault env = CFE_SUCCESS"
    and "CDS w = Some (h, b)" and "length b = CS_NUM_DATA_STORE_STATES"
  shows "CS_CreateRestoreStatesFromCDS cfg env w =
           (CFE_SUCCESS,
            set_HkPacket (\<lambda>hk. hk
              \<lparr>EepromCSState := b ! 0,
               MemoryCSState := b ! 1,
               AppCSState := b ! 2,
               TablesCSState := b ! 3,
               OSCSState := b ! 4,
               CfeCoreCSState := b ! 5\<rparr>) (set_DataStoreHandle h w))"
proof -
  have reg: "CFE_ES_RegisterCDS (RegisterCDS_Fault env) (NewCDSHandle env)
               (length (replicate CS_NUM_DATA_STORE_STATES (0 :: uint8))) (CDS w)
             = (CFE_ES_CDS_ALREADY_EXISTS, h, CDS w)"
    using assms by (simp add: CFE_ES_RegisterCDS_def)
  have w1: "set_DataStoreHandle h (w\<lparr>CDS := CDS w\<rparr>) = set_DataStoreHandle h w"
    by simp
  have sel: "DataStoreHandle (CS_AppData (set_DataStoreHandle h w)) = h"
    "CDS (set_DataStoreHandle h w) = Some (h, b)"
    using assms by (simp_all add: set_DataStoreHandle_def)
  have rest: "CFE_ES_RestoreFromCDS (RestoreFromCDS_Fault env)
                (replicate CS_NUM_DATA_STORE_STATES 0) h (Some (h, b)) = (CFE_SUCCESS, b)"
    using assms by (simp add: RestoreFromCDS_whole)
  show ?thesis
    unfolding CS_CreateRestoreStatesFromCDS_def Let_def reg
    by (simp add: w1 sel rest)
qed

text \<open>The service results that decide which way \<open>CS_CreateRestoreStatesFromCDS\<close> goes.\<close>

lemma CS_CreateRestore_result: "fst (CS_CreateRestoreStatesFromCDS cfg env w) = CFE_SUCCESS"
  unfolding CS_CreateRestoreStatesFromCDS_def Let_def
  by (simp split: prod.splits)

lemma CS_CreateRestore_fallback:
  fixes w :: "'r CS_World"
  assumes reg: "CFE_ES_RegisterCDS (RegisterCDS_Fault env) (NewCDSHandle env)
               CS_NUM_DATA_STORE_STATES (CDS w) = (rc, h, cds)"
    and fail: "(rc \<noteq> CFE_SUCCESS \<and> rc \<noteq> CFE_ES_CDS_ALREADY_EXISTS) \<or>
      (rc = CFE_SUCCESS \<and>
         fst (CFE_ES_CopyToCDS (CopyToCDS_Fault env) h
                (CS_StateBytes (HkPacket (CS_AppData w))) cds) \<noteq> CFE_SUCCESS) \<or>
      (rc = CFE_ES_CDS_ALREADY_EXISTS \<and>
         fst (CFE_ES_RestoreFromCDS (RestoreFromCDS_Fault env)
                (replicate CS_NUM_DATA_STORE_STATES 0) h cds) \<noteq> CFE_SUCCESS)"
  shows "CS_CreateRestoreStatesFromCDS cfg env w =
     (CFE_SUCCESS,
      CFE_EVS_SendEvent
        (if rc = CFE_SUCCESS then CS_CR_CDS_CPY_ERR_EID
         else if rc = CFE_ES_CDS_ALREADY_EXISTS then CS_CR_CDS_RES_ERR_EID
         else CS_CR_CDS_REG_ERR_EID)
        CFE_EVS_EventType_ERROR
        (set_HkPacket (\<lambda>hk. hk
            \<lparr>EepromCSState := CS_EEPROM_TBL_POWERON_STATE cfg,
             MemoryCSState := CS_MEMORY_TBL_POWERON_STATE cfg,
             AppCSState := CS_APPS_TBL_POWERON_STATE cfg,
             TablesCSState := CS_TABLES_TBL_POWERON_STATE cfg,
             OSCSState := CS_OSCS_CHECKSUM_STATE cfg,
             CfeCoreCSState := CS_CFECORE_CHECKSUM_STATE cfg\<rparr>)
           (set_DataStoreHandle CFE_ES_CDS_BAD_HANDLE (w\<lparr>CDS := cds\<rparr>))))"
proof -
  let ?w1 = "set_DataStoreHandle h (w\<lparr>CDS := cds\<rparr>)"
  have reg': "CFE_ES_RegisterCDS (RegisterCDS_Fault env) (NewCDSHandle env)
               (length (replicate CS_NUM_DATA_STORE_STATES (0 :: uint8))) (CDS w) = (rc, h, cds)"
    using reg by simp
  have sel: "DataStoreHandle (CS_AppData ?w1) = h" "CDS ?w1 = cds"
    "HkPacket (CS_AppData ?w1) = HkPacket (CS_AppData w)"
    by (simp_all add: set_DataStoreHandle_def)
  have bad: "set_DataStoreHandle CFE_ES_CDS_BAD_HANDLE ?w1 =
             set_DataStoreHandle CFE_ES_CDS_BAD_HANDLE (w\<lparr>CDS := cds\<rparr>)"
    by (simp add: set_DataStoreHandle_def)
  have w1cds: "?w1\<lparr>CDS := cds\<rparr> = ?w1"
    by (simp add: set_DataStoreHandle_def)
  let ?bytes = "[EepromCSState (HkPacket (CS_AppData w)), MemoryCSState (HkPacket (CS_AppData w)),
      AppCSState (HkPacket (CS_AppData w)), TablesCSState (HkPacket (CS_AppData w)),
      OSCSState (HkPacket (CS_AppData w)), CfeCoreCSState (HkPacket (CS_AppData w))]"
  from fail consider
      (reg) "rc \<noteq> CFE_SUCCESS" "rc \<noteq> CFE_ES_CDS_ALREADY_EXISTS"
    | (cpy) "rc = CFE_SUCCESS"
        "fst (CFE_ES_CopyToCDS (CopyToCDS_Fault env) h ?bytes cds) \<noteq> CFE_SUCCESS"
    | (res) "rc = CFE_ES_CDS_ALREADY_EXISTS"
        "fst (CFE_ES_RestoreFromCDS (RestoreFromCDS_Fault env)
                (replicate CS_NUM_DATA_STORE_STATES 0) h cds) \<noteq> CFE_SUCCESS"
    by (auto simp: CS_StateBytes_def)
  then show ?thesis
  proof cases
    case reg
    then show ?thesis
      unfolding CS_CreateRestoreStatesFromCDS_def Let_def reg' DataStoreBuffer_filled
      by (simp add: bad)
  next
    case cpy
    then obtain crc where c: "CFE_ES_CopyToCDS (CopyToCDS_Fault env) h ?bytes cds = (crc, cds)"
      and crc: "crc \<noteq> CFE_SUCCESS"
      using CopyToCDS_cases [of "CopyToCDS_Fault env" h ?bytes cds]
      by (cases "CFE_ES_CopyToCDS (CopyToCDS_Fault env) h ?bytes cds") auto
    from cpy(1) crc show ?thesis
      unfolding CS_CreateRestoreStatesFromCDS_def Let_def reg' DataStoreBuffer_filled
      by (simp add: sel c w1cds bad)
  next
    case res
    then obtain rrc buf where r: "CFE_ES_RestoreFromCDS (RestoreFromCDS_Fault env)
                (replicate CS_NUM_DATA_STORE_STATES 0) h cds = (rrc, buf)"
      and rrc: "rrc \<noteq> CFE_SUCCESS"
      by (cases "CFE_ES_RestoreFromCDS (RestoreFromCDS_Fault env)
                (replicate CS_NUM_DATA_STORE_STATES 0) h cds") auto
    from res(1) rrc show ?thesis
      unfolding CS_CreateRestoreStatesFromCDS_def Let_def reg' DataStoreBuffer_filled
      by (simp add: sel r bad)
  qed
qed

lemma length_CS_StateBytes: "length (CS_StateBytes hk) = CS_NUM_DATA_STORE_STATES"
  by (simp add: CS_StateBytes_def CS_NUM_DATA_STORE_STATES_def)

lemma six_bytes:
  "length (b :: uint8 list) = CS_NUM_DATA_STORE_STATES \<Longrightarrow>
     [b ! 0, b ! 1, b ! 2, b ! 3, b ! 4, b ! 5] = b"
  by (rule nth_equalityI)
    (auto simp: CS_NUM_DATA_STORE_STATES_def nth_Cons' less_Suc_eq eval_nat_numeral)

lemma CS_StateBytes_restored:
  "length b = CS_NUM_DATA_STORE_STATES \<Longrightarrow>
   CS_StateBytes (HkPacket (CS_AppData (set_HkPacket (\<lambda>hk. hk
              \<lparr>EepromCSState := b ! 0,
               MemoryCSState := b ! 1,
               AppCSState := b ! 2,
               TablesCSState := b ! 3,
               OSCSState := b ! 4,
               CfeCoreCSState := b ! 5\<rparr>) w))) = b"
  using six_bytes [of b] by (simp add: CS_StateBytes_def set_HkPacket_def)

subsection \<open>Round trip through the store\<close>

text \<open>
  Claim C1. Let \<open>CS_UpdateCDS\<close> run with a defined handle and a successful copy, and let
  a later start-up, with whatever application data \<open>a\<close> it begins from, find the store
  as that call left it and restore from it without a service fault. Then the restore
  succeeds, the stored block is the six states in the order EEPROM, Memory, Apps, Tables,
  OS, cFE core, each restored state is read from the index its value was written to, and
  so all six states are what they were when written.
\<close>

theorem CS_CDS_round_trip:
  fixes w :: "'r CS_World" and a :: "'r CS_AppData_t"
  assumes "CFE_RESOURCEID_TEST_DEFINED (DataStoreHandle (CS_AppData w))"
    and "fst (CFE_ES_CopyToCDS (CopyToCDS_Fault env) (DataStoreHandle (CS_AppData w))
               (CS_StateBytes (HkPacket (CS_AppData w))) (CDS w)) = CFE_SUCCESS"
    and "RegisterCDS_Fault env' = CFE_SUCCESS"
    and "RestoreFromCDS_Fault env' = CFE_SUCCESS"
    and "CS_CreateRestoreStatesFromCDS cfg env' ((CS_UpdateCDS env w)\<lparr>CS_AppData := a\<rparr>)
           = (Result, w')"
    and "CDS (CS_UpdateCDS env w) = Some (h, b)"
  shows "Result = CFE_SUCCESS \<and>
         b = [EepromCSState (HkPacket (CS_AppData w)), MemoryCSState (HkPacket (CS_AppData w)),
              AppCSState (HkPacket (CS_AppData w)), TablesCSState (HkPacket (CS_AppData w)),
              OSCSState (HkPacket (CS_AppData w)), CfeCoreCSState (HkPacket (CS_AppData w))] \<and>
         EepromCSState (HkPacket (CS_AppData w')) = b ! 0 \<and>
         MemoryCSState (HkPacket (CS_AppData w')) = b ! 1 \<and>
         AppCSState (HkPacket (CS_AppData w')) = b ! 2 \<and>
         TablesCSState (HkPacket (CS_AppData w')) = b ! 3 \<and>
         OSCSState (HkPacket (CS_AppData w')) = b ! 4 \<and>
         CfeCoreCSState (HkPacket (CS_AppData w')) = b ! 5 \<and>
         EepromCSState (HkPacket (CS_AppData w')) = EepromCSState (HkPacket (CS_AppData w)) \<and>
         MemoryCSState (HkPacket (CS_AppData w')) = MemoryCSState (HkPacket (CS_AppData w)) \<and>
         AppCSState (HkPacket (CS_AppData w')) = AppCSState (HkPacket (CS_AppData w)) \<and>
         TablesCSState (HkPacket (CS_AppData w')) = TablesCSState (HkPacket (CS_AppData w)) \<and>
         OSCSState (HkPacket (CS_AppData w')) = OSCSState (HkPacket (CS_AppData w)) \<and>
         CfeCoreCSState (HkPacket (CS_AppData w')) = CfeCoreCSState (HkPacket (CS_AppData w))"
proof -
  let ?w1 = "(CS_UpdateCDS env w)\<lparr>CS_AppData := a\<rparr>"
  have written: "CS_UpdateCDS env w =
      w\<lparr>CDS := Some (DataStoreHandle (CS_AppData w), CS_StateBytes (HkPacket (CS_AppData w)))\<rparr>"
    using assms(1,2) by (rule CS_UpdateCDS_written)
  with assms(6) have b: "b = CS_StateBytes (HkPacket (CS_AppData w))"
    by simp
  then have len: "length b = CS_NUM_DATA_STORE_STATES"
    by (simp add: length_CS_StateBytes)
  have cds: "CDS ?w1 = Some (h, b)"
    using assms(6) by simp
  have "CS_CreateRestoreStatesFromCDS cfg env' ?w1 =
           (CFE_SUCCESS,
            set_HkPacket (\<lambda>hk. hk
              \<lparr>EepromCSState := b ! 0,
               MemoryCSState := b ! 1,
               AppCSState := b ! 2,
               TablesCSState := b ! 3,
               OSCSState := b ! 4,
               CfeCoreCSState := b ! 5\<rparr>) (set_DataStoreHandle h ?w1))"
    using assms(3,4) cds len by (rule CS_CreateRestore_existing)
  with assms(5) have res: "Result = CFE_SUCCESS"
    and w': "w' = set_HkPacket (\<lambda>hk. hk
              \<lparr>EepromCSState := b ! 0,
               MemoryCSState := b ! 1,
               AppCSState := b ! 2,
               TablesCSState := b ! 3,
               OSCSState := b ! 4,
               CfeCoreCSState := b ! 5\<rparr>) (set_DataStoreHandle h ?w1)"
    by simp_all
  have read: "EepromCSState (HkPacket (CS_AppData w')) = b ! 0"
    "MemoryCSState (HkPacket (CS_AppData w')) = b ! 1"
    "AppCSState (HkPacket (CS_AppData w')) = b ! 2"
    "TablesCSState (HkPacket (CS_AppData w')) = b ! 3"
    "OSCSState (HkPacket (CS_AppData w')) = b ! 4"
    "CfeCoreCSState (HkPacket (CS_AppData w')) = b ! 5"
    unfolding w' by (simp_all add: set_HkPacket_def)
  have at: "b ! 0 = EepromCSState (HkPacket (CS_AppData w))"
    "b ! 1 = MemoryCSState (HkPacket (CS_AppData w))"
    "b ! 2 = AppCSState (HkPacket (CS_AppData w))"
    "b ! 3 = TablesCSState (HkPacket (CS_AppData w))"
    "b ! 4 = OSCSState (HkPacket (CS_AppData w))"
    "b ! 5 = CfeCoreCSState (HkPacket (CS_AppData w))"
    unfolding b CS_StateBytes_def by (simp_all add: eval_nat_numeral)
  show ?thesis
    using res read at b by (simp add: CS_StateBytes_def)
qed

theorem CS_CDS_round_trip_witness:
  "CFE_RESOURCEID_TEST_DEFINED (DataStoreHandle (CS_AppData sample_world)) \<and>
   CDS (CS_UpdateCDS sample_env sample_world) = Some (0x0A, [2, 1, 2, 1, 2, 1]) \<and>
   fst (CS_CreateRestoreStatesFromCDS sample_cfg sample_env
         ((CS_UpdateCDS sample_env sample_world)\<lparr>CS_AppData := memset_CS_AppData ()\<rparr>))
     = CFE_SUCCESS \<and>
   CS_StateBytes (HkPacket (CS_AppData (snd (CS_CreateRestoreStatesFromCDS sample_cfg sample_env
         ((CS_UpdateCDS sample_env sample_world)\<lparr>CS_AppData := memset_CS_AppData ()\<rparr>)))))
     = [2, 1, 2, 1, 2, 1]"
proof -
  have d: "CFE_RESOURCEID_TEST_DEFINED (DataStoreHandle (CS_AppData sample_world))"
    by (simp add: CFE_RESOURCEID_TEST_DEFINED_def)
  have ok: "fst (CFE_ES_CopyToCDS (CopyToCDS_Fault sample_env)
                  (DataStoreHandle (CS_AppData sample_world))
                  (CS_StateBytes (HkPacket (CS_AppData sample_world))) (CDS sample_world))
              = CFE_SUCCESS"
    by (simp add: CFE_ES_CopyToCDS_def)
  have cds: "CDS (CS_UpdateCDS sample_env sample_world) = Some (0x0A, [2, 1, 2, 1, 2, 1])"
    using d ok by (simp add: CS_UpdateCDS_written sample_bytes)
  obtain Result w' where r: "CS_CreateRestoreStatesFromCDS sample_cfg sample_env
         ((CS_UpdateCDS sample_env sample_world)\<lparr>CS_AppData := memset_CS_AppData ()\<rparr>)
           = (Result, w')"
    by (cases "CS_CreateRestoreStatesFromCDS sample_cfg sample_env
         ((CS_UpdateCDS sample_env sample_world)\<lparr>CS_AppData := memset_CS_AppData ()\<rparr>)")
  show ?thesis
    using CS_CDS_round_trip [OF d ok _ _ r cds] d cds
    by (simp add: r CS_StateBytes_def sample_hk_def)
qed

subsection \<open>Start-up: create or restore\<close>

text \<open>
  Claim C2. When the services work: with no block registered, \<open>CS_CreateRestoreStatesFromCDS\<close>
  registers a block of six bytes, writes the six current states into it and leaves the
  housekeeping packet alone; with a six-byte block already registered, it overwrites the
  six states with the stored bytes and leaves the store as it found it.
\<close>

theorem CS_CreateRestore_branches:
  fixes w :: "'r CS_World"
  shows
   "(RegisterCDS_Fault env = CFE_SUCCESS \<and> CopyToCDS_Fault env = CFE_SUCCESS \<and>
     CDS w = None \<longrightarrow>
       CS_CreateRestoreStatesFromCDS cfg env w =
         (CFE_SUCCESS,
          set_DataStoreHandle (NewCDSHandle env)
            (w\<lparr>CDS := Some (NewCDSHandle env, CS_StateBytes (HkPacket (CS_AppData w)))\<rparr>)) \<and>
       length (CS_StateBytes (HkPacket (CS_AppData w))) = 6 \<and>
       HkPacket (CS_AppData (snd (CS_CreateRestoreStatesFromCDS cfg env w)))
         = HkPacket (CS_AppData w)) \<and>
    (\<forall>h b. RegisterCDS_Fault env = CFE_SUCCESS \<and> RestoreFromCDS_Fault env = CFE_SUCCESS \<and>
       CDS w = Some (h, b) \<and> length b = 6 \<longrightarrow>
       CS_CreateRestoreStatesFromCDS cfg env w =
         (CFE_SUCCESS,
          set_HkPacket (\<lambda>hk. hk
              \<lparr>EepromCSState := b ! 0,
               MemoryCSState := b ! 1,
               AppCSState := b ! 2,
               TablesCSState := b ! 3,
               OSCSState := b ! 4,
               CfeCoreCSState := b ! 5\<rparr>) (set_DataStoreHandle h w)) \<and>
       CS_StateBytes (HkPacket (CS_AppData (snd (CS_CreateRestoreStatesFromCDS cfg env w)))) = b \<and>
       CDS (snd (CS_CreateRestoreStatesFromCDS cfg env w)) = CDS w)"
proof (intro conjI allI impI)
  assume a: "RegisterCDS_Fault env = CFE_SUCCESS \<and> CopyToCDS_Fault env = CFE_SUCCESS \<and>
     CDS w = None"
  then have new: "CS_CreateRestoreStatesFromCDS cfg env w =
         (CFE_SUCCESS,
          set_DataStoreHandle (NewCDSHandle env)
            (w\<lparr>CDS := Some (NewCDSHandle env, CS_StateBytes (HkPacket (CS_AppData w)))\<rparr>))"
    by (simp add: CS_CreateRestore_new)
  then show "CS_CreateRestoreStatesFromCDS cfg env w =
         (CFE_SUCCESS,
          set_DataStoreHandle (NewCDSHandle env)
            (w\<lparr>CDS := Some (NewCDSHandle env, CS_StateBytes (HkPacket (CS_AppData w)))\<rparr>))" .
  show "length (CS_StateBytes (HkPacket (CS_AppData w))) = 6"
    by (simp add: CS_StateBytes_def)
  show "HkPacket (CS_AppData (snd (CS_CreateRestoreStatesFromCDS cfg env w)))
         = HkPacket (CS_AppData w)"
    by (simp add: new set_DataStoreHandle_def)
next
  fix h b
  assume a: "RegisterCDS_Fault env = CFE_SUCCESS \<and> RestoreFromCDS_Fault env = CFE_SUCCESS \<and>
       CDS w = Some (h, b) \<and> length b = 6"
  then have len: "length b = CS_NUM_DATA_STORE_STATES"
    by (simp add: CS_NUM_DATA_STORE_STATES_def)
  from a len have old: "CS_CreateRestoreStatesFromCDS cfg env w =
         (CFE_SUCCESS,
          set_HkPacket (\<lambda>hk. hk
              \<lparr>EepromCSState := b ! 0,
               MemoryCSState := b ! 1,
               AppCSState := b ! 2,
               TablesCSState := b ! 3,
               OSCSState := b ! 4,
               CfeCoreCSState := b ! 5\<rparr>) (set_DataStoreHandle h w))"
    by (simp add: CS_CreateRestore_existing)
  then show "CS_CreateRestoreStatesFromCDS cfg env w =
         (CFE_SUCCESS,
          set_HkPacket (\<lambda>hk. hk
              \<lparr>EepromCSState := b ! 0,
               MemoryCSState := b ! 1,
               AppCSState := b ! 2,
               TablesCSState := b ! 3,
               OSCSState := b ! 4,
               CfeCoreCSState := b ! 5\<rparr>) (set_DataStoreHandle h w))" .
  show "CS_StateBytes (HkPacket (CS_AppData (snd (CS_CreateRestoreStatesFromCDS cfg env w)))) = b"
    unfolding old snd_conv using len by (rule CS_StateBytes_restored)
  show "CDS (snd (CS_CreateRestoreStatesFromCDS cfg env w)) = CDS w"
    by (simp add: old set_HkPacket_def set_DataStoreHandle_def)
qed

theorem CS_CreateRestore_branches_witness:
  "CDS blank_world = None \<and>
   CDS (snd (CS_CreateRestoreStatesFromCDS sample_cfg sample_env blank_world))
     = Some (0x0A, [2, 1, 2, 1, 2, 1]) \<and>
   HkPacket (CS_AppData (snd (CS_CreateRestoreStatesFromCDS sample_cfg sample_env blank_world)))
     = sample_hk \<and>
   CDS sample_world = Some (0x0A, [1, 2, 1, 2, 1, 1]) \<and>
   CS_StateBytes (HkPacket (CS_AppData
      (snd (CS_CreateRestoreStatesFromCDS sample_cfg sample_env sample_world))))
     = [1, 2, 1, 2, 1, 1] \<and>
   CDS (snd (CS_CreateRestoreStatesFromCDS sample_cfg sample_env sample_world))
     = Some (0x0A, [1, 2, 1, 2, 1, 1])"
proof -
  have h1: "RegisterCDS_Fault sample_env = CFE_SUCCESS \<and>
      CopyToCDS_Fault sample_env = CFE_SUCCESS \<and> CDS blank_world = None"
    by simp
  have h2: "RegisterCDS_Fault sample_env = CFE_SUCCESS \<and>
      RestoreFromCDS_Fault sample_env = CFE_SUCCESS \<and>
      CDS sample_world = Some (0x0A, [1, 2, 1, 2, 1, 1]) \<and>
      length [1, 2, 1, 2, 1, 1 :: uint8] = 6"
    by simp
  note T1 = CS_CreateRestore_branches [of sample_env blank_world sample_cfg,
      THEN conjunct1, THEN mp, OF h1]
  note T2 = CS_CreateRestore_branches [of sample_env sample_world sample_cfg,
      THEN conjunct2, THEN spec, THEN spec, THEN mp, OF h2]
  have c1: "CDS (snd (CS_CreateRestoreStatesFromCDS sample_cfg sample_env blank_world))
     = Some (0x0A, [2, 1, 2, 1, 2, 1])"
    using T1 [THEN conjunct1] by (simp add: sample_bytes set_DataStoreHandle_def)
  have c2: "HkPacket (CS_AppData
      (snd (CS_CreateRestoreStatesFromCDS sample_cfg sample_env blank_world))) = sample_hk"
    using T1 [THEN conjunct2, THEN conjunct2] by simp
  have c3: "CS_StateBytes (HkPacket (CS_AppData
      (snd (CS_CreateRestoreStatesFromCDS sample_cfg sample_env sample_world))))
     = [1, 2, 1, 2, 1, 1]"
    using T2 [THEN conjunct2, THEN conjunct1] .
  have c4: "CDS (snd (CS_CreateRestoreStatesFromCDS sample_cfg sample_env sample_world))
     = Some (0x0A, [1, 2, 1, 2, 1, 1])"
    using T2 [THEN conjunct2, THEN conjunct2] by simp
  show ?thesis
    using c1 c2 c3 c4 by simp
qed

subsection \<open>Start-up: persistence failures\<close>

text \<open>
  Claim C3. \<open>CS_CreateRestoreStatesFromCDS\<close> returns \<open>CFE_SUCCESS\<close> whatever happens. If
  registration answers neither \<open>CFE_SUCCESS\<close> nor \<open>CFE_ES_CDS_ALREADY_EXISTS\<close>, or the copy
  to a new block fails, or the restore from an existing block fails, then afterwards the
  handle is the bad handle, the six states are the configured power-on states, and one
  error event naming the failed step has been sent.
\<close>

theorem CS_CreateRestore_errors_not_fatal:
  fixes w :: "'r CS_World"
  shows
   "fst (CS_CreateRestoreStatesFromCDS cfg env w) = CFE_SUCCESS \<and>
    (\<forall>rc h cds.
       CFE_ES_RegisterCDS (RegisterCDS_Fault env) (NewCDSHandle env)
         CS_NUM_DATA_STORE_STATES (CDS w) = (rc, h, cds) \<and>
       ((rc \<noteq> CFE_SUCCESS \<and> rc \<noteq> CFE_ES_CDS_ALREADY_EXISTS) \<or>
        (rc = CFE_SUCCESS \<and>
           fst (CFE_ES_CopyToCDS (CopyToCDS_Fault env) h
                  (CS_StateBytes (HkPacket (CS_AppData w))) cds) \<noteq> CFE_SUCCESS) \<or>
        (rc = CFE_ES_CDS_ALREADY_EXISTS \<and>
           fst (CFE_ES_RestoreFromCDS (RestoreFromCDS_Fault env)
                  (replicate CS_NUM_DATA_STORE_STATES 0) h cds) \<noteq> CFE_SUCCESS)) \<longrightarrow>
       DataStoreHandle (CS_AppData (snd (CS_CreateRestoreStatesFromCDS cfg env w)))
         = CFE_ES_CDS_BAD_HANDLE \<and>
       CS_StateBytes (HkPacket (CS_AppData (snd (CS_CreateRestoreStatesFromCDS cfg env w))))
         = [CS_EEPROM_TBL_POWERON_STATE cfg, CS_MEMORY_TBL_POWERON_STATE cfg,
            CS_APPS_TBL_POWERON_STATE cfg, CS_TABLES_TBL_POWERON_STATE cfg,
            CS_OSCS_CHECKSUM_STATE cfg, CS_CFECORE_CHECKSUM_STATE cfg] \<and>
       Events (snd (CS_CreateRestoreStatesFromCDS cfg env w))
         = Events w @
           [(if rc = CFE_SUCCESS then CS_CR_CDS_CPY_ERR_EID
             else if rc = CFE_ES_CDS_ALREADY_EXISTS then CS_CR_CDS_RES_ERR_EID
             else CS_CR_CDS_REG_ERR_EID, CFE_EVS_EventType_ERROR)])"
proof (intro conjI allI impI)
  show "fst (CS_CreateRestoreStatesFromCDS cfg env w) = CFE_SUCCESS"
    by (rule CS_CreateRestore_result)
next
  fix rc h cds
  assume a: "CFE_ES_RegisterCDS (RegisterCDS_Fault env) (NewCDSHandle env)
         CS_NUM_DATA_STORE_STATES (CDS w) = (rc, h, cds) \<and>
       ((rc \<noteq> CFE_SUCCESS \<and> rc \<noteq> CFE_ES_CDS_ALREADY_EXISTS) \<or>
        (rc = CFE_SUCCESS \<and>
           fst (CFE_ES_CopyToCDS (CopyToCDS_Fault env) h
                  (CS_StateBytes (HkPacket (CS_AppData w))) cds) \<noteq> CFE_SUCCESS) \<or>
        (rc = CFE_ES_CDS_ALREADY_EXISTS \<and>
           fst (CFE_ES_RestoreFromCDS (RestoreFromCDS_Fault env)
                  (replicate CS_NUM_DATA_STORE_STATES 0) h cds) \<noteq> CFE_SUCCESS))"
  note fb = CS_CreateRestore_fallback [OF conjunct1 [OF a] conjunct2 [OF a], of cfg]
  show "DataStoreHandle (CS_AppData (snd (CS_CreateRestoreStatesFromCDS cfg env w)))
         = CFE_ES_CDS_BAD_HANDLE"
    unfolding fb
    by (simp add: CFE_EVS_SendEvent_def set_HkPacket_def set_DataStoreHandle_def)
  show "CS_StateBytes (HkPacket (CS_AppData (snd (CS_CreateRestoreStatesFromCDS cfg env w))))
         = [CS_EEPROM_TBL_POWERON_STATE cfg, CS_MEMORY_TBL_POWERON_STATE cfg,
            CS_APPS_TBL_POWERON_STATE cfg, CS_TABLES_TBL_POWERON_STATE cfg,
            CS_OSCS_CHECKSUM_STATE cfg, CS_CFECORE_CHECKSUM_STATE cfg]"
    unfolding fb
    by (simp add: CS_StateBytes_def CFE_EVS_SendEvent_def set_HkPacket_def)
  show "Events (snd (CS_CreateRestoreStatesFromCDS cfg env w))
         = Events w @
           [(if rc = CFE_SUCCESS then CS_CR_CDS_CPY_ERR_EID
             else if rc = CFE_ES_CDS_ALREADY_EXISTS then CS_CR_CDS_RES_ERR_EID
             else CS_CR_CDS_REG_ERR_EID, CFE_EVS_EventType_ERROR)]"
    unfolding fb
    by (simp add: CFE_EVS_SendEvent_def set_HkPacket_def set_DataStoreHandle_def)
qed

lemma sample_cfg_sel [simp]:
  "CS_EEPROM_TBL_POWERON_STATE sample_cfg = 1"
  "CS_MEMORY_TBL_POWERON_STATE sample_cfg = 2"
  "CS_APPS_TBL_POWERON_STATE sample_cfg = 1"
  "CS_TABLES_TBL_POWERON_STATE sample_cfg = 2"
  "CS_OSCS_CHECKSUM_STATE sample_cfg = 1"
  "CS_CFECORE_CHECKSUM_STATE sample_cfg = 1"
  "CS_STATE_ENABLED sample_cfg = 1"
  "CS_DEFAULT_BYTES_PER_CYCLE sample_cfg = 16384"
  "CS_PRESERVE_STATES_ON_PROCESSOR_RESET sample_cfg"
  "CS_SEND_HK_MID sample_cfg = 0x18A0"
  "CS_BACKGROUND_CYCLE_MID sample_cfg = 0x18A1"
  "CS_CMD_MID sample_cfg = 0x189F"
  "sizeof_CS_NoArgsCmd_t sample_cfg = 8"
  by (simp_all add: sample_cfg_def)

theorem CS_CreateRestore_errors_not_fatal_witness:
  "(let r = CS_CreateRestoreStatesFromCDS sample_cfg
              (sample_env\<lparr>RegisterCDS_Fault := 0xC4000001\<rparr>) blank_world
    in fst r = CFE_SUCCESS \<and>
       DataStoreHandle (CS_AppData (snd r)) = CFE_ES_CDS_BAD_HANDLE \<and>
       CS_StateBytes (HkPacket (CS_AppData (snd r))) = [1, 2, 1, 2, 1, 1] \<and>
       Events (snd r) = [(CS_CR_CDS_REG_ERR_EID, CFE_EVS_EventType_ERROR)]) \<and>
   (let r = CS_CreateRestoreStatesFromCDS sample_cfg
              (sample_env\<lparr>CopyToCDS_Fault := 0xC4000006\<rparr>) blank_world
    in fst r = CFE_SUCCESS \<and>
       DataStoreHandle (CS_AppData (snd r)) = CFE_ES_CDS_BAD_HANDLE \<and>
       CS_StateBytes (HkPacket (CS_AppData (snd r))) = [1, 2, 1, 2, 1, 1] \<and>
       Events (snd r) = [(CS_CR_CDS_CPY_ERR_EID, CFE_EVS_EventType_ERROR)]) \<and>
   (let r = CS_CreateRestoreStatesFromCDS sample_cfg
              (sample_env\<lparr>RestoreFromCDS_Fault := 0xC4000007\<rparr>) sample_world
    in fst r = CFE_SUCCESS \<and>
       DataStoreHandle (CS_AppData (snd r)) = CFE_ES_CDS_BAD_HANDLE \<and>
       CS_StateBytes (HkPacket (CS_AppData (snd r))) = [1, 2, 1, 2, 1, 1] \<and>
       Events (snd r) = [(CS_CR_CDS_RES_ERR_EID, CFE_EVS_EventType_ERROR)])"
proof -
  let ?envA = "sample_env\<lparr>RegisterCDS_Fault := 0xC4000001\<rparr>"
  let ?envB = "sample_env\<lparr>CopyToCDS_Fault := 0xC4000006\<rparr>"
  let ?envC = "sample_env\<lparr>RestoreFromCDS_Fault := 0xC4000007\<rparr>"
  have hA: "CFE_ES_RegisterCDS (RegisterCDS_Fault ?envA) (NewCDSHandle ?envA)
         CS_NUM_DATA_STORE_STATES (CDS blank_world) = (0xC4000001, CFE_ES_CDS_BAD_HANDLE, None) \<and>
       (((0xC4000001 :: int32) \<noteq> CFE_SUCCESS \<and> 0xC4000001 \<noteq> CFE_ES_CDS_ALREADY_EXISTS) \<or>
        ((0xC4000001 :: int32) = CFE_SUCCESS \<and>
           fst (CFE_ES_CopyToCDS (CopyToCDS_Fault ?envA) CFE_ES_CDS_BAD_HANDLE
                  (CS_StateBytes (HkPacket (CS_AppData blank_world))) None) \<noteq> CFE_SUCCESS) \<or>
        ((0xC4000001 :: int32) = CFE_ES_CDS_ALREADY_EXISTS \<and>
           fst (CFE_ES_RestoreFromCDS (RestoreFromCDS_Fault ?envA)
                  (replicate CS_NUM_DATA_STORE_STATES 0) CFE_ES_CDS_BAD_HANDLE None)
             \<noteq> CFE_SUCCESS))"
    by (simp add: CFE_ES_RegisterCDS_def CFE_SUCCESS_def CFE_ES_CDS_ALREADY_EXISTS_def)
  have hB: "CFE_ES_RegisterCDS (RegisterCDS_Fault ?envB) (NewCDSHandle ?envB)
         CS_NUM_DATA_STORE_STATES (CDS blank_world)
           = (CFE_SUCCESS, 0x0A, Some (0x0A, replicate CS_NUM_DATA_STORE_STATES 0)) \<and>
       ((CFE_SUCCESS \<noteq> CFE_SUCCESS \<and> CFE_SUCCESS \<noteq> CFE_ES_CDS_ALREADY_EXISTS) \<or>
        (CFE_SUCCESS = CFE_SUCCESS \<and>
           fst (CFE_ES_CopyToCDS (CopyToCDS_Fault ?envB) 0x0A
                  (CS_StateBytes (HkPacket (CS_AppData blank_world)))
                  (Some (0x0A, replicate CS_NUM_DATA_STORE_STATES 0))) \<noteq> CFE_SUCCESS) \<or>
        (CFE_SUCCESS = CFE_ES_CDS_ALREADY_EXISTS \<and>
           fst (CFE_ES_RestoreFromCDS (RestoreFromCDS_Fault ?envB)
                  (replicate CS_NUM_DATA_STORE_STATES 0) 0x0A
                  (Some (0x0A, replicate CS_NUM_DATA_STORE_STATES 0))) \<noteq> CFE_SUCCESS))"
    by (simp add: CFE_ES_RegisterCDS_def CFE_ES_CopyToCDS_def CFE_SUCCESS_def)
  have hC: "CFE_ES_RegisterCDS (RegisterCDS_Fault ?envC) (NewCDSHandle ?envC)
         CS_NUM_DATA_STORE_STATES (CDS sample_world)
           = (CFE_ES_CDS_ALREADY_EXISTS, 0x0A, Some (0x0A, [1, 2, 1, 2, 1, 1])) \<and>
       ((CFE_ES_CDS_ALREADY_EXISTS \<noteq> CFE_SUCCESS \<and>
         CFE_ES_CDS_ALREADY_EXISTS \<noteq> CFE_ES_CDS_ALREADY_EXISTS) \<or>
        (CFE_ES_CDS_ALREADY_EXISTS = CFE_SUCCESS \<and>
           fst (CFE_ES_CopyToCDS (CopyToCDS_Fault ?envC) 0x0A
                  (CS_StateBytes (HkPacket (CS_AppData sample_world)))
                  (Some (0x0A, [1, 2, 1, 2, 1, 1]))) \<noteq> CFE_SUCCESS) \<or>
        (CFE_ES_CDS_ALREADY_EXISTS = CFE_ES_CDS_ALREADY_EXISTS \<and>
           fst (CFE_ES_RestoreFromCDS (RestoreFromCDS_Fault ?envC)
                  (replicate CS_NUM_DATA_STORE_STATES 0) 0x0A
                  (Some (0x0A, [1, 2, 1, 2, 1, 1]))) \<noteq> CFE_SUCCESS))"
    by (simp add: CFE_ES_RegisterCDS_def CFE_ES_RestoreFromCDS_def CFE_SUCCESS_def
        CS_NUM_DATA_STORE_STATES_def)
  note A = CS_CreateRestore_errors_not_fatal [of sample_cfg ?envA blank_world]
  note B = CS_CreateRestore_errors_not_fatal [of sample_cfg ?envB blank_world]
  note C = CS_CreateRestore_errors_not_fatal [of sample_cfg ?envC sample_world]
  note A2 = A [THEN conjunct2, THEN spec, THEN spec, THEN spec, THEN mp, OF hA]
  note B2 = B [THEN conjunct2, THEN spec, THEN spec, THEN spec, THEN mp, OF hB]
  note C2 = C [THEN conjunct2, THEN spec, THEN spec, THEN spec, THEN mp, OF hC]
  have a: "0xC4000001 \<noteq> CFE_SUCCESS" "0xC4000001 \<noteq> CFE_ES_CDS_ALREADY_EXISTS"
    by (simp_all add: CFE_SUCCESS_def CFE_ES_CDS_ALREADY_EXISTS_def)
  show ?thesis
    unfolding Let_def
    using A [THEN conjunct1] B [THEN conjunct1] C [THEN conjunct1] A2 B2 C2 a
    by simp
qed

subsection \<open>Layout of the stored record\<close>

text \<open>
  Claim C5. The record has \<open>CS_NUM_DATA_STORE_STATES = 6\<close> bytes. The block written at
  start-up to a new record, and the block written by every successful \<open>CS_UpdateCDS\<close>, is
  the list EEPROM state, Memory state, Apps state, Tables state, OS state, cFE core state
  (bytes 0 to 5); the start-up restore reads byte 0 into the EEPROM state, byte 1 into the
  Memory state, byte 2 into the Apps state, byte 3 into the Tables state, byte 4 into the
  OS state and byte 5 into the cFE core state.
\<close>

theorem CDS_record_layout:
  fixes w :: "'r CS_World"
  shows
   "CS_NUM_DATA_STORE_STATES = 6 \<and>
    (RegisterCDS_Fault env = CFE_SUCCESS \<and> CopyToCDS_Fault env = CFE_SUCCESS \<and>
     CDS w = None \<longrightarrow>
       CDS (snd (CS_CreateRestoreStatesFromCDS cfg env w)) =
         Some (NewCDSHandle env,
           [EepromCSState (HkPacket (CS_AppData w)), MemoryCSState (HkPacket (CS_AppData w)),
            AppCSState (HkPacket (CS_AppData w)), TablesCSState (HkPacket (CS_AppData w)),
            OSCSState (HkPacket (CS_AppData w)), CfeCoreCSState (HkPacket (CS_AppData w))])) \<and>
    (\<forall>h b. RegisterCDS_Fault env = CFE_SUCCESS \<and> RestoreFromCDS_Fault env = CFE_SUCCESS \<and>
       CDS w = Some (h, b) \<and> length b = CS_NUM_DATA_STORE_STATES \<longrightarrow>
       EepromCSState (HkPacket (CS_AppData (snd (CS_CreateRestoreStatesFromCDS cfg env w))))
         = b ! 0 \<and>
       MemoryCSState (HkPacket (CS_AppData (snd (CS_CreateRestoreStatesFromCDS cfg env w))))
         = b ! 1 \<and>
       AppCSState (HkPacket (CS_AppData (snd (CS_CreateRestoreStatesFromCDS cfg env w))))
         = b ! 2 \<and>
       TablesCSState (HkPacket (CS_AppData (snd (CS_CreateRestoreStatesFromCDS cfg env w))))
         = b ! 3 \<and>
       OSCSState (HkPacket (CS_AppData (snd (CS_CreateRestoreStatesFromCDS cfg env w))))
         = b ! 4 \<and>
       CfeCoreCSState (HkPacket (CS_AppData (snd (CS_CreateRestoreStatesFromCDS cfg env w))))
         = b ! 5) \<and>
    (CFE_RESOURCEID_TEST_DEFINED (DataStoreHandle (CS_AppData w)) \<and>
     fst (CFE_ES_CopyToCDS (CopyToCDS_Fault env) (DataStoreHandle (CS_AppData w))
            (CS_StateBytes (HkPacket (CS_AppData w))) (CDS w)) = CFE_SUCCESS \<longrightarrow>
       CDS (CS_UpdateCDS env w) =
         Some (DataStoreHandle (CS_AppData w),
           [EepromCSState (HkPacket (CS_AppData w)), MemoryCSState (HkPacket (CS_AppData w)),
            AppCSState (HkPacket (CS_AppData w)), TablesCSState (HkPacket (CS_AppData w)),
            OSCSState (HkPacket (CS_AppData w)), CfeCoreCSState (HkPacket (CS_AppData w))]))"
proof (intro conjI allI impI)
  show "CS_NUM_DATA_STORE_STATES = 6"
    by (simp add: CS_NUM_DATA_STORE_STATES_def)
next
  assume "RegisterCDS_Fault env = CFE_SUCCESS \<and> CopyToCDS_Fault env = CFE_SUCCESS \<and>
     CDS w = None"
  then have "CS_CreateRestoreStatesFromCDS cfg env w =
         (CFE_SUCCESS,
          set_DataStoreHandle (NewCDSHandle env)
            (w\<lparr>CDS := Some (NewCDSHandle env, CS_StateBytes (HkPacket (CS_AppData w)))\<rparr>))"
    by (simp add: CS_CreateRestore_new)
  then show "CDS (snd (CS_CreateRestoreStatesFromCDS cfg env w)) =
         Some (NewCDSHandle env,
           [EepromCSState (HkPacket (CS_AppData w)), MemoryCSState (HkPacket (CS_AppData w)),
            AppCSState (HkPacket (CS_AppData w)), TablesCSState (HkPacket (CS_AppData w)),
            OSCSState (HkPacket (CS_AppData w)), CfeCoreCSState (HkPacket (CS_AppData w))])"
    by (simp add: set_DataStoreHandle_def CS_StateBytes_def)
next
  assume "CFE_RESOURCEID_TEST_DEFINED (DataStoreHandle (CS_AppData w)) \<and>
     fst (CFE_ES_CopyToCDS (CopyToCDS_Fault env) (DataStoreHandle (CS_AppData w))
            (CS_StateBytes (HkPacket (CS_AppData w))) (CDS w)) = CFE_SUCCESS"
  then have "CS_UpdateCDS env w =
      w\<lparr>CDS := Some (DataStoreHandle (CS_AppData w), CS_StateBytes (HkPacket (CS_AppData w)))\<rparr>"
    by (simp add: CS_UpdateCDS_written)
  then show "CDS (CS_UpdateCDS env w) =
         Some (DataStoreHandle (CS_AppData w),
           [EepromCSState (HkPacket (CS_AppData w)), MemoryCSState (HkPacket (CS_AppData w)),
            AppCSState (HkPacket (CS_AppData w)), TablesCSState (HkPacket (CS_AppData w)),
            OSCSState (HkPacket (CS_AppData w)), CfeCoreCSState (HkPacket (CS_AppData w))])"
    by (simp add: CS_StateBytes_def)
next
  fix h b
  assume "RegisterCDS_Fault env = CFE_SUCCESS \<and> RestoreFromCDS_Fault env = CFE_SUCCESS \<and>
       CDS w = Some (h, b) \<and> length b = CS_NUM_DATA_STORE_STATES"
  then have old: "CS_CreateRestoreStatesFromCDS cfg env w =
         (CFE_SUCCESS,
          set_HkPacket (\<lambda>hk. hk
              \<lparr>EepromCSState := b ! 0,
               MemoryCSState := b ! 1,
               AppCSState := b ! 2,
               TablesCSState := b ! 3,
               OSCSState := b ! 4,
               CfeCoreCSState := b ! 5\<rparr>) (set_DataStoreHandle h w))"
    by (simp add: CS_CreateRestore_existing)
  show "EepromCSState (HkPacket (CS_AppData (snd (CS_CreateRestoreStatesFromCDS cfg env w))))
         = b ! 0"
    by (simp add: old set_HkPacket_def)
  show "MemoryCSState (HkPacket (CS_AppData (snd (CS_CreateRestoreStatesFromCDS cfg env w))))
         = b ! 1"
    by (simp add: old set_HkPacket_def)
  show "AppCSState (HkPacket (CS_AppData (snd (CS_CreateRestoreStatesFromCDS cfg env w))))
         = b ! 2"
    by (simp add: old set_HkPacket_def)
  show "TablesCSState (HkPacket (CS_AppData (snd (CS_CreateRestoreStatesFromCDS cfg env w))))
         = b ! 3"
    by (simp add: old set_HkPacket_def)
  show "OSCSState (HkPacket (CS_AppData (snd (CS_CreateRestoreStatesFromCDS cfg env w))))
         = b ! 4"
    by (simp add: old set_HkPacket_def)
  show "CfeCoreCSState (HkPacket (CS_AppData (snd (CS_CreateRestoreStatesFromCDS cfg env w))))
         = b ! 5"
    by (simp add: old set_HkPacket_def)
qed

theorem CDS_record_layout_witness:
  "CDS (snd (CS_CreateRestoreStatesFromCDS sample_cfg sample_env blank_world))
     = Some (0x0A, [2, 1, 2, 1, 2, 1]) \<and>
   CDS (CS_UpdateCDS sample_env sample_world) = Some (0x0A, [2, 1, 2, 1, 2, 1]) \<and>
   (let hk = HkPacket (CS_AppData (snd (CS_CreateRestoreStatesFromCDS sample_cfg sample_env
                (sample_world\<lparr>CDS := Some (0x0A, [11, 12, 13, 14, 15, 16])\<rparr>))))
    in EepromCSState hk = 11 \<and> MemoryCSState hk = 12 \<and> AppCSState hk = 13 \<and>
       TablesCSState hk = 14 \<and> OSCSState hk = 15 \<and> CfeCoreCSState hk = 16)"
proof -
  let ?w = "sample_world\<lparr>CDS := Some (0x0A, [11, 12, 13, 14, 15, 16])\<rparr>"
  have h1: "RegisterCDS_Fault sample_env = CFE_SUCCESS \<and>
      CopyToCDS_Fault sample_env = CFE_SUCCESS \<and> CDS blank_world = None"
    by simp
  have h2: "RegisterCDS_Fault sample_env = CFE_SUCCESS \<and>
      RestoreFromCDS_Fault sample_env = CFE_SUCCESS \<and>
      CDS ?w = Some (0x0A, [11, 12, 13, 14, 15, 16]) \<and>
      length [11, 12, 13, 14, 15, 16 :: uint8] = CS_NUM_DATA_STORE_STATES"
    by (simp add: CS_NUM_DATA_STORE_STATES_def)
  have h3: "CFE_RESOURCEID_TEST_DEFINED (DataStoreHandle (CS_AppData sample_world)) \<and>
     fst (CFE_ES_CopyToCDS (CopyToCDS_Fault sample_env) (DataStoreHandle (CS_AppData sample_world))
            (CS_StateBytes (HkPacket (CS_AppData sample_world))) (CDS sample_world))
       = CFE_SUCCESS"
    by (simp add: CFE_RESOURCEID_TEST_DEFINED_def CFE_ES_CopyToCDS_def)
  note T1 = CDS_record_layout [of sample_env blank_world sample_cfg,
      THEN conjunct2, THEN conjunct1, THEN mp, OF h1]
  note T2 = CDS_record_layout [of sample_env ?w sample_cfg,
      THEN conjunct2, THEN conjunct2, THEN conjunct1, THEN spec, THEN spec, THEN mp, OF h2]
  note T3 = CDS_record_layout [of sample_env sample_world sample_cfg,
      THEN conjunct2, THEN conjunct2, THEN conjunct2, THEN mp, OF h3]
  have c1: "CDS (snd (CS_CreateRestoreStatesFromCDS sample_cfg sample_env blank_world))
     = Some (0x0A, [2, 1, 2, 1, 2, 1])"
    using T1 by (simp add: sample_hk_def)
  have c3: "CDS (CS_UpdateCDS sample_env sample_world) = Some (0x0A, [2, 1, 2, 1, 2, 1])"
    using T3 by (simp add: sample_hk_def)
  show ?thesis
    unfolding Let_def using c1 c3 T2 by simp
qed

subsection \<open>Restoring without validation\<close>

text \<open>
  Claim C9. A successful restore from an existing six-byte block copies the six bytes as
  they are: whatever the block \<open>b\<close> holds, the six states afterwards are \<open>b\<close>, the call
  returns \<open>CFE_SUCCESS\<close>, no event is sent and nothing else in the housekeeping packet
  changes. No byte is compared with the enabled or disabled value.
\<close>

theorem CS_CreateRestore_raw_bytes:
  fixes w :: "'r CS_World"
  assumes "RegisterCDS_Fault env = CFE_SUCCESS" and "RestoreFromCDS_Fault env = CFE_SUCCESS"
    and "CDS w = Some (h, b)" and "length b = CS_NUM_DATA_STORE_STATES"
  shows "fst (CS_CreateRestoreStatesFromCDS cfg env w) = CFE_SUCCESS \<and>
         CS_StateBytes (HkPacket (CS_AppData (snd (CS_CreateRestoreStatesFromCDS cfg env w)))) = b \<and>
         Events (snd (CS_CreateRestoreStatesFromCDS cfg env w)) = Events w \<and>
         HkPacket (CS_AppData (snd (CS_CreateRestoreStatesFromCDS cfg env w))) =
           (HkPacket (CS_AppData w))
              \<lparr>EepromCSState := b ! 0,
               MemoryCSState := b ! 1,
               AppCSState := b ! 2,
               TablesCSState := b ! 3,
               OSCSState := b ! 4,
               CfeCoreCSState := b ! 5\<rparr>"
proof -
  have old: "CS_CreateRestoreStatesFromCDS cfg env w =
         (CFE_SUCCESS,
          set_HkPacket (\<lambda>hk. hk
              \<lparr>EepromCSState := b ! 0,
               MemoryCSState := b ! 1,
               AppCSState := b ! 2,
               TablesCSState := b ! 3,
               OSCSState := b ! 4,
               CfeCoreCSState := b ! 5\<rparr>) (set_DataStoreHandle h w))"
    using assms by (rule CS_CreateRestore_existing)
  have "CS_StateBytes (HkPacket (CS_AppData (snd (CS_CreateRestoreStatesFromCDS cfg env w)))) = b"
    unfolding old snd_conv using assms(4) by (rule CS_StateBytes_restored)
  then show ?thesis
    by (simp add: old set_HkPacket_def set_DataStoreHandle_def)
qed

theorem CS_CreateRestore_raw_bytes_witness:
  "CS_StateBytes (HkPacket (CS_AppData (snd (CS_CreateRestoreStatesFromCDS sample_cfg sample_env
      (sample_world\<lparr>CDS := Some (0x0A, [0xFF, 0, 3, 7, 0x80, 0x2A])\<rparr>)))))
     = [0xFF, 0, 3, 7, 0x80, 0x2A] \<and>
   fst (CS_CreateRestoreStatesFromCDS sample_cfg sample_env
      (sample_world\<lparr>CDS := Some (0x0A, [0xFF, 0, 3, 7, 0x80, 0x2A])\<rparr>)) = CFE_SUCCESS \<and>
   Events (snd (CS_CreateRestoreStatesFromCDS sample_cfg sample_env
      (sample_world\<lparr>CDS := Some (0x0A, [0xFF, 0, 3, 7, 0x80, 0x2A])\<rparr>))) = []"
proof -
  let ?w = "sample_world\<lparr>CDS := Some (0x0A, [0xFF, 0, 3, 7, 0x80, 0x2A])\<rparr>"
  have c: "CDS ?w = Some (0x0A, [0xFF, 0, 3, 7, 0x80, 0x2A])" by simp
  have l: "length [0xFF, 0, 3, 7, 0x80, 0x2A :: uint8] = CS_NUM_DATA_STORE_STATES"
    by (simp add: CS_NUM_DATA_STORE_STATES_def)
  have r: "RegisterCDS_Fault sample_env = CFE_SUCCESS"
    "RestoreFromCDS_Fault sample_env = CFE_SUCCESS" by simp_all
  show ?thesis
    using CS_CreateRestore_raw_bytes [OF r c l, of sample_cfg]
    by (simp add: CS_StateBytes_def)
qed

subsection \<open>The switch on the command code\<close>

lemma CS_ProcessCmd_labels_all: "c \<in> set CS_ProcessCmd_labels"
  by (cases c) (simp_all add: CS_ProcessCmd_labels_def)

text \<open>With distinct command codes, the case whose label has the code runs its handler.\<close>

lemma CS_ProcessCmd_dispatch:
  assumes "inj (CC_value cfg)" and "CC_value cfg c = FcnCode BufPtr"
  shows "CS_ProcessCmd cfg env BufPtr w = CS_CmdHandler env (CS_ProcessCmd_case c) BufPtr w"
proof -
  let ?P = "\<lambda>c. CC_value cfg c = FcnCode BufPtr"
  have "find ?P CS_ProcessCmd_labels \<noteq> None"
    using assms(2) CS_ProcessCmd_labels_all [of c] by (auto simp: find_None_iff)
  then obtain c' where f: "find ?P CS_ProcessCmd_labels = Some c'"
    by auto
  then have "?P c'"
    by (auto simp: find_Some_iff)
  with assms(2) have "CC_value cfg c' = CC_value cfg c"
    by simp
  with assms(1) have "c' = c"
    by (rule injD)
  with f show ?thesis
    by (simp add: CS_ProcessCmd_def Let_def)
qed

subsection \<open>Rejected messages\<close>

text \<open>
  Claim C6. A message whose identifier is none of the three that \<open>CS_AppPipe\<close> knows,
  and a command whose code is the value of no case label of \<open>CS_ProcessCmd\<close> (also when
  it arrives through \<open>CS_AppPipe\<close>), has exactly this effect on the world: one error event
  is sent and \<open>CmdErrCounter\<close>, a byte, goes up by one (modulo 256). Nothing else changes;
  in particular \<open>CmdCounter\<close> keeps its value, and \<open>CS_AppPipe\<close> returns \<open>CFE_SUCCESS\<close>.
\<close>

theorem unrecognized_input_rejected:
  fixes w :: "'r CS_World"
  shows
   "(MsgId BufPtr \<noteq> CS_SEND_HK_MID cfg \<and> MsgId BufPtr \<noteq> CS_BACKGROUND_CYCLE_MID cfg \<and>
     MsgId BufPtr \<noteq> CS_CMD_MID cfg \<longrightarrow>
       CS_AppPipe cfg env BufPtr w =
         (CFE_SUCCESS,
          w\<lparr>CS_AppData := (CS_AppData w)\<lparr>HkPacket := (HkPacket (CS_AppData w))
                \<lparr>CmdErrCounter := CmdErrCounter (HkPacket (CS_AppData w)) + 1\<rparr>\<rparr>,
            Events := Events w @ [(CS_MID_ERR_EID, CFE_EVS_EventType_ERROR)]\<rparr>)) \<and>
    ((\<forall>c \<in> set CS_ProcessCmd_labels. CC_value cfg c \<noteq> FcnCode BufPtr) \<longrightarrow>
       CS_ProcessCmd cfg env BufPtr w =
         w\<lparr>CS_AppData := (CS_AppData w)\<lparr>HkPacket := (HkPacket (CS_AppData w))
                \<lparr>CmdErrCounter := CmdErrCounter (HkPacket (CS_AppData w)) + 1\<rparr>\<rparr>,
           Events := Events w @ [(CS_CC1_ERR_EID, CFE_EVS_EventType_ERROR)]\<rparr> \<and>
       CmdCounter (HkPacket (CS_AppData (CS_ProcessCmd cfg env BufPtr w)))
         = CmdCounter (HkPacket (CS_AppData w)) \<and>
       unat (CmdErrCounter (HkPacket (CS_AppData (CS_ProcessCmd cfg env BufPtr w))))
         = (unat (CmdErrCounter (HkPacket (CS_AppData w))) + 1) mod 256 \<and>
       (MsgId BufPtr \<noteq> CS_SEND_HK_MID cfg \<and> MsgId BufPtr \<noteq> CS_BACKGROUND_CYCLE_MID cfg \<and>
        MsgId BufPtr = CS_CMD_MID cfg \<longrightarrow>
          CS_AppPipe cfg env BufPtr w =
            (CFE_SUCCESS,
             w\<lparr>CS_AppData := (CS_AppData w)\<lparr>HkPacket := (HkPacket (CS_AppData w))
                   \<lparr>CmdErrCounter := CmdErrCounter (HkPacket (CS_AppData w)) + 1\<rparr>\<rparr>,
               Events := Events w @ [(CS_CC1_ERR_EID, CFE_EVS_EventType_ERROR)]\<rparr>)))"
proof (intro conjI impI)
  assume "MsgId BufPtr \<noteq> CS_SEND_HK_MID cfg \<and> MsgId BufPtr \<noteq> CS_BACKGROUND_CYCLE_MID cfg \<and>
     MsgId BufPtr \<noteq> CS_CMD_MID cfg"
  then show "CS_AppPipe cfg env BufPtr w =
         (CFE_SUCCESS,
          w\<lparr>CS_AppData := (CS_AppData w)\<lparr>HkPacket := (HkPacket (CS_AppData w))
                \<lparr>CmdErrCounter := CmdErrCounter (HkPacket (CS_AppData w)) + 1\<rparr>\<rparr>,
            Events := Events w @ [(CS_MID_ERR_EID, CFE_EVS_EventType_ERROR)]\<rparr>)"
    by (simp add: CS_AppPipe_def Let_def set_HkPacket_def CFE_EVS_SendEvent_def)
next
  assume none: "\<forall>c \<in> set CS_ProcessCmd_labels. CC_value cfg c \<noteq> FcnCode BufPtr"
  then have "find (\<lambda>c. CC_value cfg c = FcnCode BufPtr) CS_ProcessCmd_labels = None"
    by (simp add: find_None_iff)
  then show cmd: "CS_ProcessCmd cfg env BufPtr w =
         w\<lparr>CS_AppData := (CS_AppData w)\<lparr>HkPacket := (HkPacket (CS_AppData w))
                \<lparr>CmdErrCounter := CmdErrCounter (HkPacket (CS_AppData w)) + 1\<rparr>\<rparr>,
           Events := Events w @ [(CS_CC1_ERR_EID, CFE_EVS_EventType_ERROR)]\<rparr>"
    by (simp add: CS_ProcessCmd_def Let_def set_HkPacket_def CFE_EVS_SendEvent_def)
  show "CmdCounter (HkPacket (CS_AppData (CS_ProcessCmd cfg env BufPtr w)))
         = CmdCounter (HkPacket (CS_AppData w))"
    by (simp add: cmd)
  show "unat (CmdErrCounter (HkPacket (CS_AppData (CS_ProcessCmd cfg env BufPtr w))))
         = (unat (CmdErrCounter (HkPacket (CS_AppData w))) + 1) mod 256"
    by (simp add: cmd unat_word_ariths)
  assume "MsgId BufPtr \<noteq> CS_SEND_HK_MID cfg \<and> MsgId BufPtr \<noteq> CS_BACKGROUND_CYCLE_MID cfg \<and>
        MsgId BufPtr = CS_CMD_MID cfg"
  then show "CS_AppPipe cfg env BufPtr w =
            (CFE_SUCCESS,
             w\<lparr>CS_AppData := (CS_AppData w)\<lparr>HkPacket := (HkPacket (CS_AppData w))
                   \<lparr>CmdErrCounter := CmdErrCounter (HkPacket (CS_AppData w)) + 1\<rparr>\<rparr>,
               Events := Events w @ [(CS_CC1_ERR_EID, CFE_EVS_EventType_ERROR)]\<rparr>)"
    using cmd by (auto simp: CS_AppPipe_def Let_def)
qed

lemma sample_codes:
  "\<forall>c \<in> set CS_ProcessCmd_labels. CC_value sample_cfg c \<noteq> 99"
  by (simp add: sample_cfg_def CS_ProcessCmd_labels_def)

theorem unrecognized_input_rejected_witness:
  "CS_AppPipe sample_cfg sample_env \<lparr>MsgId = 0x1234, FcnCode = 0, MsgSize = 8\<rparr> sample_world =
     (CFE_SUCCESS,
      sample_world\<lparr>CS_AppData := (CS_AppData sample_world)\<lparr>HkPacket := sample_hk
                \<lparr>CmdErrCounter := 2\<rparr>\<rparr>,
            Events := [(CS_MID_ERR_EID, CFE_EVS_EventType_ERROR)]\<rparr>) \<and>
   CS_AppPipe sample_cfg sample_env \<lparr>MsgId = 0x189F, FcnCode = 99, MsgSize = 8\<rparr> sample_world =
     (CFE_SUCCESS,
      sample_world\<lparr>CS_AppData := (CS_AppData sample_world)\<lparr>HkPacket := sample_hk
                \<lparr>CmdErrCounter := 2\<rparr>\<rparr>,
            Events := [(CS_CC1_ERR_EID, CFE_EVS_EventType_ERROR)]\<rparr>)"
proof -
  let ?m1 = "\<lparr>MsgId = 0x1234, FcnCode = 0, MsgSize = 8\<rparr>"
  let ?m2 = "\<lparr>MsgId = 0x189F, FcnCode = 99, MsgSize = 8\<rparr>"
  have h1: "MsgId ?m1 \<noteq> CS_SEND_HK_MID sample_cfg \<and>
      MsgId ?m1 \<noteq> CS_BACKGROUND_CYCLE_MID sample_cfg \<and> MsgId ?m1 \<noteq> CS_CMD_MID sample_cfg"
    by simp
  have h2: "\<forall>c \<in> set CS_ProcessCmd_labels. CC_value sample_cfg c \<noteq> FcnCode ?m2"
    using sample_codes by simp
  have h3: "MsgId ?m2 \<noteq> CS_SEND_HK_MID sample_cfg \<and>
      MsgId ?m2 \<noteq> CS_BACKGROUND_CYCLE_MID sample_cfg \<and> MsgId ?m2 = CS_CMD_MID sample_cfg"
    by simp
  note T1 = unrecognized_input_rejected [of ?m1 sample_cfg sample_env sample_world,
      THEN conjunct1, THEN mp, OF h1]
  note T2 = unrecognized_input_rejected [of ?m2 sample_cfg sample_env sample_world,
      THEN conjunct2, THEN mp, OF h2, THEN conjunct2, THEN conjunct2, THEN conjunct2,
      THEN mp, OF h3]
  have e: "CmdErrCounter sample_hk + 1 = 2"
    by (simp add: sample_hk_def)
  show ?thesis
    using T1 T2 by (simp add: e)
qed

subsection \<open>Housekeeping requests\<close>

text \<open>
  Claim C8. A housekeeping request of the wrong length only adds the length error event:
  no packet is transmitted and no counter moves. A request of the right length puts the
  mission time into the telemetry header and transmits the housekeeping packet; again
  neither \<open>CmdCounter\<close> nor \<open>CmdErrCounter\<close> changes.
\<close>

theorem CS_HousekeepingCmd_counters:
  fixes w :: "'r CS_World"
  shows
   "(MsgSize CmdPtr \<noteq> sizeof_CS_NoArgsCmd_t cfg \<longrightarrow>
       CS_HousekeepingCmd cfg env CmdPtr w =
         w\<lparr>Events := Events w @ [(CS_LEN_ERR_EID, CFE_EVS_EventType_ERROR)]\<rparr> \<and>
       TlmOut (CS_HousekeepingCmd cfg env CmdPtr w) = TlmOut w) \<and>
    (MsgSize CmdPtr = sizeof_CS_NoArgsCmd_t cfg \<longrightarrow>
       CS_HousekeepingCmd cfg env CmdPtr w =
         w\<lparr>CS_AppData := (CS_AppData w)\<lparr>HkPacket := (HkPacket (CS_AppData w))
                \<lparr>TlmHeader := MissionTime env\<rparr>\<rparr>,
           TlmOut := TlmOut w @ [(HkPacket (CS_AppData w))\<lparr>TlmHeader := MissionTime env\<rparr>]\<rparr> \<and>
       Events (CS_HousekeepingCmd cfg env CmdPtr w) = Events w) \<and>
    CmdCounter (HkPacket (CS_AppData (CS_HousekeepingCmd cfg env CmdPtr w)))
      = CmdCounter (HkPacket (CS_AppData w)) \<and>
    CmdErrCounter (HkPacket (CS_AppData (CS_HousekeepingCmd cfg env CmdPtr w)))
      = CmdErrCounter (HkPacket (CS_AppData w))"
  by (simp add: CS_HousekeepingCmd_def Let_def CFE_EVS_SendEvent_def CFE_SB_TransmitMsg_def
      CFE_SB_TimeStampMsg_def set_HkPacket_def)

theorem CS_HousekeepingCmd_counters_witness:
  "CS_HousekeepingCmd sample_cfg sample_env \<lparr>MsgId = 0x18A0, FcnCode = 0, MsgSize = 12\<rparr>
      sample_world
     = sample_world\<lparr>Events := [(CS_LEN_ERR_EID, CFE_EVS_EventType_ERROR)]\<rparr> \<and>
   TlmOut (CS_HousekeepingCmd sample_cfg sample_env \<lparr>MsgId = 0x18A0, FcnCode = 0, MsgSize = 8\<rparr>
      sample_world) = [sample_hk\<lparr>TlmHeader := 1000\<rparr>] \<and>
   CmdCounter (HkPacket (CS_AppData (CS_HousekeepingCmd sample_cfg sample_env
      \<lparr>MsgId = 0x18A0, FcnCode = 0, MsgSize = 8\<rparr> sample_world))) = 3 \<and>
   CmdErrCounter (HkPacket (CS_AppData (CS_HousekeepingCmd sample_cfg sample_env
      \<lparr>MsgId = 0x18A0, FcnCode = 0, MsgSize = 8\<rparr> sample_world))) = 1"
proof -
  let ?bad = "\<lparr>MsgId = 0x18A0, FcnCode = 0, MsgSize = 12\<rparr>"
  let ?good = "\<lparr>MsgId = 0x18A0, FcnCode = 0, MsgSize = 8\<rparr>"
  have h1: "MsgSize ?bad \<noteq> sizeof_CS_NoArgsCmd_t sample_cfg" by simp
  have h2: "MsgSize ?good = sizeof_CS_NoArgsCmd_t sample_cfg" by simp
  note T1 = CS_HousekeepingCmd_counters [of ?bad sample_cfg sample_env sample_world,
      THEN conjunct1, THEN mp, OF h1]
  note T2 = CS_HousekeepingCmd_counters [of ?good sample_cfg sample_env sample_world,
      THEN conjunct2, THEN conjunct1, THEN mp, OF h2]
  note T3 = CS_HousekeepingCmd_counters [of ?good sample_cfg sample_env sample_world,
      THEN conjunct2, THEN conjunct2]
  have t: "TlmOut sample_world = []" "MissionTime sample_env = 1000"
    "CmdCounter sample_hk = 3" "CmdErrCounter sample_hk = 1"
    by (simp_all add: sample_world_def sample_env_def sample_hk_def)
  show ?thesis
    using T1 T2 T3 by (simp add: t)
qed

subsection \<open>Initialisation\<close>

text \<open>A successful \<open>CS_AppInit\<close> has gone through every step, each with success.\<close>

lemma CS_AppInit_success:
  fixes w :: "'r CS_World"
  assumes "CS_AppInit cfg env w = (CFE_SUCCESS, w')"
  obtains w2 w3 w4 where
    "CS_SbInit env
       (w\<lparr>CS_AppData := (memset_CS_AppData (ZeroedRest env))
            \<lparr>RunStatus := CFE_ES_RunStatus_APP_RUN\<rparr>\<rparr>) = (CFE_SUCCESS, w2)"
    "(if CS_PRESERVE_STATES_ON_PROCESSOR_RESET cfg
      then CS_CreateRestoreStatesFromCDS cfg env
        (set_HkPacket (\<lambda>hk. hk
            \<lparr>EepromCSState := CS_EEPROM_TBL_POWERON_STATE cfg,
             MemoryCSState := CS_MEMORY_TBL_POWERON_STATE cfg,
             AppCSState := CS_APPS_TBL_POWERON_STATE cfg,
             TablesCSState := CS_TABLES_TBL_POWERON_STATE cfg,
             OSCSState := CS_OSCS_CHECKSUM_STATE cfg,
             CfeCoreCSState := CS_CFECORE_CHECKSUM_STATE cfg\<rparr>)
          (CS_InitializeDefaultTables env w2))
      else (CFE_SUCCESS,
        set_HkPacket (\<lambda>hk. hk
            \<lparr>EepromCSState := CS_EEPROM_TBL_POWERON_STATE cfg,
             MemoryCSState := CS_MEMORY_TBL_POWERON_STATE cfg,
             AppCSState := CS_APPS_TBL_POWERON_STATE cfg,
             TablesCSState := CS_TABLES_TBL_POWERON_STATE cfg,
             OSCSState := CS_OSCS_CHECKSUM_STATE cfg,
             CfeCoreCSState := CS_CFECORE_CHECKSUM_STATE cfg\<rparr>)
          (CS_InitializeDefaultTables env w2))) = (CFE_SUCCESS, w3)"
    "CS_InitAllTables env w3 = (CFE_SUCCESS, w4)"
    "HkPacket (CS_AppData w') =
       (HkPacket (CS_AppData (CS_InitSegments env w4)))
         \<lparr>CurrentCSTable := 0,
          CurrentEntryInTable := 0,
          ChecksumState := CS_STATE_ENABLED cfg,
          RecomputeInProgress := False,
          OneShotInProgress := False\<rparr>"
    "MaxBytesPerCycle (CS_AppData w') = CS_DEFAULT_BYTES_PER_CYCLE cfg"
    "Events w' = Events (CS_InitSegments env w4) @
       [(CS_INIT_INF_EID, CFE_EVS_EventType_INFORMATION)]"
  using assms
  unfolding CS_AppInit_def Let_def
  by (auto simp: CFE_EVS_SendEvent_def set_HkPacket_def split: prod.splits if_splits)

lemma CS_UpdateCDS_ignores_gate:
  "CDS (CS_UpdateCDS env (set_HkPacket (\<lambda>hk. hk\<lparr>ChecksumState := g\<rparr>) w))
     = CDS (CS_UpdateCDS env w)"
  by (simp add: CS_UpdateCDS_def Let_def set_HkPacket_def set_DataStoreHandle_def
      CFE_EVS_SendEvent_def split: prod.splits)

lemma CS_CreateRestore_created:
  fixes w :: "'r CS_World"
  assumes reg: "CFE_ES_RegisterCDS (RegisterCDS_Fault env) (NewCDSHandle env)
               CS_NUM_DATA_STORE_STATES (CDS w) = (CFE_SUCCESS, h, cds)"
    and copy: "fst (CFE_ES_CopyToCDS (CopyToCDS_Fault env) h
                (CS_StateBytes (HkPacket (CS_AppData w))) cds) = CFE_SUCCESS"
  shows "CS_CreateRestoreStatesFromCDS cfg env w =
     (CFE_SUCCESS,
      set_DataStoreHandle h (w\<lparr>CDS := Some (h, CS_StateBytes (HkPacket (CS_AppData w)))\<rparr>))"
proof -
  let ?w1 = "set_DataStoreHandle h (w\<lparr>CDS := cds\<rparr>)"
  let ?bytes = "[EepromCSState (HkPacket (CS_AppData w)), MemoryCSState (HkPacket (CS_AppData w)),
      AppCSState (HkPacket (CS_AppData w)), TablesCSState (HkPacket (CS_AppData w)),
      OSCSState (HkPacket (CS_AppData w)), CfeCoreCSState (HkPacket (CS_AppData w))]"
  have reg': "CFE_ES_RegisterCDS (RegisterCDS_Fault env) (NewCDSHandle env)
               (length (replicate CS_NUM_DATA_STORE_STATES (0 :: uint8))) (CDS w)
                 = (CFE_SUCCESS, h, cds)"
    using reg by simp
  have sel: "DataStoreHandle (CS_AppData ?w1) = h" "CDS ?w1 = cds"
    "HkPacket (CS_AppData ?w1) = HkPacket (CS_AppData w)"
    by (simp_all add: set_DataStoreHandle_def)
  have c: "CFE_ES_CopyToCDS (CopyToCDS_Fault env) h ?bytes cds = (CFE_SUCCESS, Some (h, ?bytes))"
    using CopyToCDS_cases [of "CopyToCDS_Fault env" h ?bytes cds] copy
    by (simp add: CS_StateBytes_def)
  have upd: "?w1\<lparr>CDS := Some (h, ?bytes)\<rparr> = set_DataStoreHandle h (w\<lparr>CDS := Some (h, ?bytes)\<rparr>)"
    by (simp add: set_DataStoreHandle_def)
  show ?thesis
    unfolding CS_CreateRestoreStatesFromCDS_def Let_def reg' DataStoreBuffer_filled
    by (simp add: sel c upd CS_StateBytes_def)
qed

lemma CS_CreateRestore_restored:
  fixes w :: "'r CS_World"
  assumes reg: "CFE_ES_RegisterCDS (RegisterCDS_Fault env) (NewCDSHandle env)
               CS_NUM_DATA_STORE_STATES (CDS w) = (CFE_ES_CDS_ALREADY_EXISTS, h, cds)"
    and rest: "CFE_ES_RestoreFromCDS (RestoreFromCDS_Fault env)
                (replicate CS_NUM_DATA_STORE_STATES 0) h cds = (CFE_SUCCESS, buf)"
  shows "CS_CreateRestoreStatesFromCDS cfg env w =
     (CFE_SUCCESS,
      set_HkPacket (\<lambda>hk. hk
          \<lparr>EepromCSState := buf ! 0,
           MemoryCSState := buf ! 1,
           AppCSState := buf ! 2,
           TablesCSState := buf ! 3,
           OSCSState := buf ! 4,
           CfeCoreCSState := buf ! 5\<rparr>) (set_DataStoreHandle h (w\<lparr>CDS := cds\<rparr>)))"
proof -
  let ?w1 = "set_DataStoreHandle h (w\<lparr>CDS := cds\<rparr>)"
  have reg': "CFE_ES_RegisterCDS (RegisterCDS_Fault env) (NewCDSHandle env)
               (length (replicate CS_NUM_DATA_STORE_STATES (0 :: uint8))) (CDS w)
                 = (CFE_ES_CDS_ALREADY_EXISTS, h, cds)"
    using reg by simp
  have sel: "DataStoreHandle (CS_AppData ?w1) = h" "CDS ?w1 = cds"
    by (simp_all add: set_DataStoreHandle_def)
  show ?thesis
    unfolding CS_CreateRestoreStatesFromCDS_def Let_def reg'
    by (simp add: sel rest)
qed

text \<open>The three ways through \<open>CS_CreateRestoreStatesFromCDS\<close>, in one equation.\<close>

lemma CS_CreateRestore_unfold:
  fixes w :: "'r CS_World"
  shows "CS_CreateRestoreStatesFromCDS cfg env w =
    (case CFE_ES_RegisterCDS (RegisterCDS_Fault env) (NewCDSHandle env)
            CS_NUM_DATA_STORE_STATES (CDS w) of
       (rc, h, cds) \<Rightarrow>
         if rc = CFE_SUCCESS \<and>
            fst (CFE_ES_CopyToCDS (CopyToCDS_Fault env) h
                   (CS_StateBytes (HkPacket (CS_AppData w))) cds) = CFE_SUCCESS
         then (CFE_SUCCESS,
               set_DataStoreHandle h
                 (w\<lparr>CDS := Some (h, CS_StateBytes (HkPacket (CS_AppData w)))\<rparr>))
         else if rc = CFE_ES_CDS_ALREADY_EXISTS \<and>
            fst (CFE_ES_RestoreFromCDS (RestoreFromCDS_Fault env)
                   (replicate CS_NUM_DATA_STORE_STATES 0) h cds) = CFE_SUCCESS
         then (CFE_SUCCESS,
               set_HkPacket (\<lambda>hk. hk
                 \<lparr>EepromCSState := snd (CFE_ES_RestoreFromCDS (RestoreFromCDS_Fault env)
                      (replicate CS_NUM_DATA_STORE_STATES 0) h cds) ! 0,
                  MemoryCSState := snd (CFE_ES_RestoreFromCDS (RestoreFromCDS_Fault env)
                      (replicate CS_NUM_DATA_STORE_STATES 0) h cds) ! 1,
                  AppCSState := snd (CFE_ES_RestoreFromCDS (RestoreFromCDS_Fault env)
                      (replicate CS_NUM_DATA_STORE_STATES 0) h cds) ! 2,
                  TablesCSState := snd (CFE_ES_RestoreFromCDS (RestoreFromCDS_Fault env)
                      (replicate CS_NUM_DATA_STORE_STATES 0) h cds) ! 3,
                  OSCSState := snd (CFE_ES_RestoreFromCDS (RestoreFromCDS_Fault env)
                      (replicate CS_NUM_DATA_STORE_STATES 0) h cds) ! 4,
                  CfeCoreCSState := snd (CFE_ES_RestoreFromCDS (RestoreFromCDS_Fault env)
                      (replicate CS_NUM_DATA_STORE_STATES 0) h cds) ! 5\<rparr>)
                 (set_DataStoreHandle h (w\<lparr>CDS := cds\<rparr>)))
         else (CFE_SUCCESS,
               CFE_EVS_SendEvent
                 (if rc = CFE_SUCCESS then CS_CR_CDS_CPY_ERR_EID
                  else if rc = CFE_ES_CDS_ALREADY_EXISTS then CS_CR_CDS_RES_ERR_EID
                  else CS_CR_CDS_REG_ERR_EID)
                 CFE_EVS_EventType_ERROR
                 (set_HkPacket (\<lambda>hk. hk
                     \<lparr>EepromCSState := CS_EEPROM_TBL_POWERON_STATE cfg,
                      MemoryCSState := CS_MEMORY_TBL_POWERON_STATE cfg,
                      AppCSState := CS_APPS_TBL_POWERON_STATE cfg,
                      TablesCSState := CS_TABLES_TBL_POWERON_STATE cfg,
                      OSCSState := CS_OSCS_CHECKSUM_STATE cfg,
                      CfeCoreCSState := CS_CFECORE_CHECKSUM_STATE cfg\<rparr>)
                    (set_DataStoreHandle CFE_ES_CDS_BAD_HANDLE (w\<lparr>CDS := cds\<rparr>)))))"
proof -
  obtain rc h cds where reg: "CFE_ES_RegisterCDS (RegisterCDS_Fault env) (NewCDSHandle env)
         CS_NUM_DATA_STORE_STATES (CDS w) = (rc, h, cds)"
    by (cases "CFE_ES_RegisterCDS (RegisterCDS_Fault env) (NewCDSHandle env)
         CS_NUM_DATA_STORE_STATES (CDS w)") auto
  let ?copy_rc = "fst (CFE_ES_CopyToCDS (CopyToCDS_Fault env) h
                (CS_StateBytes (HkPacket (CS_AppData w))) cds)"
  let ?rest = "CFE_ES_RestoreFromCDS (RestoreFromCDS_Fault env)
                (replicate CS_NUM_DATA_STORE_STATES 0) h cds"
  consider (a) "rc = CFE_SUCCESS" "?copy_rc = CFE_SUCCESS"
    | (b) "rc = CFE_ES_CDS_ALREADY_EXISTS" "fst ?rest = CFE_SUCCESS"
    | (c) "(rc \<noteq> CFE_SUCCESS \<and> rc \<noteq> CFE_ES_CDS_ALREADY_EXISTS) \<or>
           (rc = CFE_SUCCESS \<and> ?copy_rc \<noteq> CFE_SUCCESS) \<or>
           (rc = CFE_ES_CDS_ALREADY_EXISTS \<and> fst ?rest \<noteq> CFE_SUCCESS)"
    by blast
  then show ?thesis
  proof cases
    case a
    from reg a(1) have reg': "CFE_ES_RegisterCDS (RegisterCDS_Fault env) (NewCDSHandle env)
         CS_NUM_DATA_STORE_STATES (CDS w) = (CFE_SUCCESS, h, cds)" by simp
    show ?thesis
      unfolding CS_CreateRestore_created [OF reg' a(2)] reg'
      using a(2) by simp
  next
    case b
    from reg b(1) have reg': "CFE_ES_RegisterCDS (RegisterCDS_Fault env) (NewCDSHandle env)
         CS_NUM_DATA_STORE_STATES (CDS w) = (CFE_ES_CDS_ALREADY_EXISTS, h, cds)" by simp
    have rest: "?rest = (CFE_SUCCESS, snd ?rest)"
      using b(2) by (cases ?rest) simp
    show ?thesis
      unfolding CS_CreateRestore_restored [OF reg' rest] reg'
      using b(2) by simp
  next
    case c
    have no: "\<not> (rc = CFE_SUCCESS \<and> ?copy_rc = CFE_SUCCESS)"
      "\<not> (rc = CFE_ES_CDS_ALREADY_EXISTS \<and> fst ?rest = CFE_SUCCESS)"
      using c by auto
    show ?thesis
      unfolding CS_CreateRestore_fallback [OF reg c] reg
      using no by auto
  qed
qed

lemma CS_CreateRestore_keeps_gate:
  "ChecksumState (HkPacket (CS_AppData (snd (CS_CreateRestoreStatesFromCDS cfg env w))))
     = ChecksumState (HkPacket (CS_AppData w))"
  unfolding CS_CreateRestore_unfold
  by (simp add: set_HkPacket_def set_DataStoreHandle_def CFE_EVS_SendEvent_def
      split: prod.splits)

lemma CS_CreateRestore_CDS:
  "CDS (snd (CS_CreateRestoreStatesFromCDS cfg env w)) =
     (case CFE_ES_RegisterCDS (RegisterCDS_Fault env) (NewCDSHandle env)
             CS_NUM_DATA_STORE_STATES (CDS w) of
        (rc, h, cds) \<Rightarrow>
          if rc = CFE_SUCCESS \<and>
             fst (CFE_ES_CopyToCDS (CopyToCDS_Fault env) h
                   (CS_StateBytes (HkPacket (CS_AppData w))) cds) = CFE_SUCCESS
          then Some (h, CS_StateBytes (HkPacket (CS_AppData w)))
          else cds)"
  unfolding CS_CreateRestore_unfold
  by (simp add: set_HkPacket_def set_DataStoreHandle_def CFE_EVS_SendEvent_def
      split: prod.splits)

lemma CS_CreateRestore_ignores_gate:
  "CDS (snd (CS_CreateRestoreStatesFromCDS cfg env
          (set_HkPacket (\<lambda>hk. hk\<lparr>ChecksumState := g\<rparr>) w)))
     = CDS (snd (CS_CreateRestoreStatesFromCDS cfg env w))"
proof -
  have f: "CDS (set_HkPacket (\<lambda>hk. hk\<lparr>ChecksumState := g\<rparr>) w) = CDS w"
    "CS_StateBytes (HkPacket (CS_AppData (set_HkPacket (\<lambda>hk. hk\<lparr>ChecksumState := g\<rparr>) w)))
       = CS_StateBytes (HkPacket (CS_AppData w))"
    by (simp_all add: set_HkPacket_def CS_StateBytes_def)
  show ?thesis
    unfolding CS_CreateRestore_CDS f by (rule refl)
qed

text \<open>
  Claim C10. Whatever the world before start-up, a \<open>CS_AppInit\<close> that returns
  \<open>CFE_SUCCESS\<close> leaves the master \<open>ChecksumState\<close> at \<open>CS_STATE_ENABLED\<close>. The master
  state is not persisted: what \<open>CS_UpdateCDS\<close> and \<open>CS_CreateRestoreStatesFromCDS\<close> leave
  in the store does not depend on it, and \<open>CS_CreateRestoreStatesFromCDS\<close> never assigns
  it.
\<close>

theorem master_state_enabled_after_init:
  fixes w :: "'r CS_World"
  shows
   "(fst (CS_AppInit cfg env w) = CFE_SUCCESS \<longrightarrow>
       ChecksumState (HkPacket (CS_AppData (snd (CS_AppInit cfg env w)))) = CS_STATE_ENABLED cfg) \<and>
    CDS (CS_UpdateCDS env (set_HkPacket (\<lambda>hk. hk\<lparr>ChecksumState := g\<rparr>) w))
      = CDS (CS_UpdateCDS env w) \<and>
    CDS (snd (CS_CreateRestoreStatesFromCDS cfg env
           (set_HkPacket (\<lambda>hk. hk\<lparr>ChecksumState := g\<rparr>) w)))
      = CDS (snd (CS_CreateRestoreStatesFromCDS cfg env w)) \<and>
    ChecksumState (HkPacket (CS_AppData (snd (CS_CreateRestoreStatesFromCDS cfg env w))))
      = ChecksumState (HkPacket (CS_AppData w))"
proof (intro conjI impI)
  assume ok: "fst (CS_AppInit cfg env w) = CFE_SUCCESS"
  obtain w' where r: "CS_AppInit cfg env w = (CFE_SUCCESS, w')"
    using ok by (cases "CS_AppInit cfg env w") simp
  from r obtain w4 where
    "HkPacket (CS_AppData w') =
       (HkPacket (CS_AppData (CS_InitSegments env w4)))
         \<lparr>CurrentCSTable := 0,
          CurrentEntryInTable := 0,
          ChecksumState := CS_STATE_ENABLED cfg,
          RecomputeInProgress := False,
          OneShotInProgress := False\<rparr>"
    by (rule CS_AppInit_success)
  then have "ChecksumState (HkPacket (CS_AppData w')) = CS_STATE_ENABLED cfg"
    by simp
  then show "ChecksumState (HkPacket (CS_AppData (snd (CS_AppInit cfg env w))))
      = CS_STATE_ENABLED cfg"
    by (simp add: r)
qed (rule CS_UpdateCDS_ignores_gate CS_CreateRestore_ignores_gate CS_CreateRestore_keeps_gate)+

lemma sample_init_ok: "fst (CS_AppInit sample_cfg sample_env w) = CFE_SUCCESS"
proof -
  have r: "rc = CFE_SUCCESS"
    if "CS_CreateRestoreStatesFromCDS sample_cfg sample_env u = (rc, u')" for u u' rc
    using CS_CreateRestore_result [of sample_cfg sample_env u] that by simp
  have e: "CS_SbInit sample_env = (\<lambda>w. (CFE_SUCCESS, w))"
    "CS_InitAllTables sample_env = (\<lambda>w. (CFE_SUCCESS, w))"
    by (simp_all add: sample_env_def)
  show ?thesis
    unfolding CS_AppInit_def Let_def
    by (auto simp: e split: prod.splits dest: r)
qed

theorem master_state_enabled_after_init_witness:
  "ChecksumState (HkPacket (CS_AppData sample_world)) = 2 \<and>
   fst (CS_AppInit sample_cfg sample_env sample_world) = CFE_SUCCESS \<and>
   ChecksumState (HkPacket (CS_AppData (snd (CS_AppInit sample_cfg sample_env sample_world))))
     = 1"
  using master_state_enabled_after_init [of sample_cfg sample_env sample_world,
      THEN conjunct1, THEN mp, OF sample_init_ok]
  by (simp add: sample_init_ok sample_hk_def)





lemma init_leaves_untouched_same:
  assumes "CDS w' = CDS w"
    and "CS_StateBytes (HkPacket (CS_AppData w')) = CS_StateBytes (HkPacket (CS_AppData w))"
  shows "init_leaves_untouched w w' = w'"
  using assms by (simp add: init_leaves_untouched_def set_HkPacket_def CS_StateBytes_def)


text \<open>
  Every environment whose start-up routines leave the store and the six class states
  alone is of this form.
\<close>

lemma spec_init_routines_fixed:
  fixes env :: "'r CS_Env"
  assumes sb: "\<And>u. CDS (snd (CS_SbInit env u)) = CDS u"
      "\<And>u. CS_StateBytes (HkPacket (CS_AppData (snd (CS_SbInit env u))))
            = CS_StateBytes (HkPacket (CS_AppData u))"
    and dt: "\<And>u. CDS (CS_InitializeDefaultTables env u) = CDS u"
      "\<And>u. CS_StateBytes (HkPacket (CS_AppData (CS_InitializeDefaultTables env u)))
            = CS_StateBytes (HkPacket (CS_AppData u))"
    and at: "\<And>u. CDS (snd (CS_InitAllTables env u)) = CDS u"
      "\<And>u. CS_StateBytes (HkPacket (CS_AppData (snd (CS_InitAllTables env u))))
            = CS_StateBytes (HkPacket (CS_AppData u))"
    and sg: "\<And>u. CDS (CS_InitSegments env u) = CDS u"
      "\<And>u. CS_StateBytes (HkPacket (CS_AppData (CS_InitSegments env u)))
            = CS_StateBytes (HkPacket (CS_AppData u))"
  shows "spec_init_routines env = env"
proof -
  have 1: "(\<lambda>w. case CS_SbInit env w of (rc, w') \<Rightarrow> (rc, init_leaves_untouched w w'))
             = CS_SbInit env"
  proof
    fix w
    show "(case CS_SbInit env w of (rc, w') \<Rightarrow> (rc, init_leaves_untouched w w'))
             = CS_SbInit env w"
      using sb [of w] by (cases "CS_SbInit env w") (simp add: init_leaves_untouched_same)
  qed
  have 2: "(\<lambda>w. init_leaves_untouched w (CS_InitializeDefaultTables env w))
             = CS_InitializeDefaultTables env"
    using dt by (simp add: init_leaves_untouched_same)
  have 3: "(\<lambda>w. case CS_InitAllTables env w of (rc, w') \<Rightarrow> (rc, init_leaves_untouched w w'))
             = CS_InitAllTables env"
  proof
    fix w
    show "(case CS_InitAllTables env w of (rc, w') \<Rightarrow> (rc, init_leaves_untouched w w'))
             = CS_InitAllTables env w"
      using at [of w] by (cases "CS_InitAllTables env w") (simp add: init_leaves_untouched_same)
  qed
  have 4: "(\<lambda>w. init_leaves_untouched w (CS_InitSegments env w)) = CS_InitSegments env"
    using sg by (simp add: init_leaves_untouched_same)
  show ?thesis
    unfolding spec_init_routines_def 1 2 3 4 by simp
qed




end
